theory Spec2Isabelle
  imports Main "HOL-Library.Sublist"
begin

section \<open>JavaScript values\<close>

text \<open>
  The server in \<^verbatim>\<open>src/server.js\<close> handles values that arrive as parsed JSON (webhook
  bodies, REST responses, socket payloads).  They are modelled by one datatype; \<open>JUndefined\<close>
  stands for JavaScript's \<^verbatim>\<open>undefined\<close>.
\<close>

datatype json =
    JUndefined
  | JNull
  | JBool bool
  | JNum int
  | JStr string
  | JArr "json list"
  | JObj "(string \<times> json) list"

text \<open>Truthiness, as tested by \<^verbatim>\<open>if (v)\<close>, \<^verbatim>\<open>!v\<close> and \<^verbatim>\<open>a || b\<close>.\<close>

fun truthy :: "json \<Rightarrow> bool" where
  "truthy JUndefined = False"
| "truthy JNull = False"
| "truthy (JBool b) = b"
| "truthy (JNum n) = (n \<noteq> 0)"
| "truthy (JStr s) = (s \<noteq> [])"
| "truthy (JArr xs) = True"
| "truthy (JObj kvs) = True"

text \<open>
  Reading a property named by the source (\<^verbatim>\<open>id\<close>, \<^verbatim>\<open>event\<close>, \<^verbatim>\<open>success\<close>, \<^verbatim>\<open>call_id\<close>, ...):
  an object yields the stored value or \<^verbatim>\<open>undefined\<close>; a primitive or an array has none of
  these properties; on \<^verbatim>\<open>null\<close> and \<^verbatim>\<open>undefined\<close> the source reads only through \<^verbatim>\<open>?.\<close> or
  after a truthiness test, so \<^verbatim>\<open>undefined\<close> is the value there too.
\<close>

fun get_field :: "json \<Rightarrow> string \<Rightarrow> json" where
  "get_field (JObj kvs) k = (case map_of kvs k of None \<Rightarrow> JUndefined | Some v \<Rightarrow> v)"
| "get_field v k = JUndefined"

definition js_or :: "json \<Rightarrow> json \<Rightarrow> json" where
  "js_or a b = (if truthy a then a else b)"

text \<open>
  \<^verbatim>\<open>a === b\<close> where both sides come from different parsed messages: primitives compare by
  value, objects and arrays by reference (never equal here).
\<close>

fun strict_eq :: "json \<Rightarrow> json \<Rightarrow> bool" where
  "strict_eq (JArr xs) b = False"
| "strict_eq (JObj kvs) b = False"
| "strict_eq a b = (a = b)"

text \<open>
  Interpolating a value in a template literal (\<^verbatim>\<open>`Call ${callId} ...`\<close>) converts it to a
  string.  For a parsed object the conversion calls its \<^verbatim>\<open>toString\<close>; an object with a property
  of its own named \<^verbatim>\<open>toString\<close> (never a function in parsed JSON) has no usable one, and the
  conversion throws a TypeError.  An array converts its elements (other than \<^verbatim>\<open>null\<close>) one by
  one; every other value converts without error.
\<close>

fun to_string_throws :: "json \<Rightarrow> bool" where
  "to_string_throws (JObj kvs) = (map_of kvs ''toString'' \<noteq> None)"
| "to_string_throws (JArr xs) = list_ex to_string_throws xs"
| "to_string_throws v = False"

section \<open>String.prototype.replace with a string pattern\<close>

text \<open>
  \<^verbatim>\<open>s.replace(pat, rep)\<close> with a string \<^verbatim>\<open>pat\<close> looks for the first position at which
  \<^verbatim>\<open>pat\<close> occurs, scanning from index 0; when there is none the result is \<^verbatim>\<open>s\<close>, otherwise the
  text before the match, \<^verbatim>\<open>rep\<close>, and the text after the match.  (The replacement used by the
  source has no \<^verbatim>\<open>$\<close> pattern, so it is inserted literally.)
\<close>

fun string_index_of :: "string \<Rightarrow> string \<Rightarrow> nat option" where
  "string_index_of [] pat = (if pat = [] then Some 0 else None)"
| "string_index_of (c # cs) pat =
     (if prefix pat (c # cs) then Some 0 else map_option Suc (string_index_of cs pat))"

definition js_replace :: "string \<Rightarrow> string \<Rightarrow> string \<Rightarrow> string" where
  "js_replace s pat rep =
     (case string_index_of s pat of
        None \<Rightarrow> s
      | Some pos \<Rightarrow> take pos s @ rep @ drop (pos + length pat) s)"

text \<open>Line 435: \<^verbatim>\<open>waAnswer.sdp.replace("a=setup:actpass", "a=setup:active")\<close>.\<close>

definition finalWaSdp :: "string \<Rightarrow> string" where
  "finalWaSdp sdp = js_replace sdp ''a=setup:actpass'' ''a=setup:active''"

text \<open>Decimal rendering of a timestamp, for the template \<^verbatim>\<open>`outgoing_${Date.now()}`\<close>.\<close>

definition digit_char :: "nat \<Rightarrow> char" where
  "digit_char d = char_of (48 + d)"

fun decimal :: "nat \<Rightarrow> string" where
  "decimal n = (if n < 10 then [digit_char n] else decimal (n div 10) @ [digit_char (n mod 10)])"

declare decimal.simps [simp del]

section \<open>Session state\<close>

type_synonym socket = nat
type_synonym track = nat

text \<open>The part of a peer connection that the source drives.\<close>

record peer =
  remoteDescription :: "json option"
  localDescription :: "string option"
  senders :: "track list"

definition new_peer :: peer where
  "new_peer = \<lparr>remoteDescription = None, localDescription = None, senders = []\<rparr>"

text \<open>Lines 94--99: the outgoing call record.\<close>

record outgoing_call_state =
  phoneNumber :: json
  callerName :: json
  callId :: json
  status :: string

text \<open>An outcome of \<^verbatim>\<open>axios.post\<close>: the promise resolves with \<^verbatim>\<open>response.data\<close>, or rejects
  with an error carrying \<^verbatim>\<open>message\<close> and \<^verbatim>\<open>response?.data\<close>.\<close>

datatype js_error = JsError (err_message: string) (err_response_data: json)

definition conversion_error :: js_error where
  "conversion_error = JsError ''Cannot convert object to primitive value'' JUndefined"

datatype http_outcome = Resolved json | Rejected js_error

datatype action = Connect | PreAccept | Accept | Reject | Terminate

text \<open>One REST call posted to the provider, with what came back.\<close>

record provider_call =
  req_action :: action
  req_to :: json
  req_call_id :: json
  req_sdp :: json
  req_outcome :: http_outcome

text \<open>An event pushed to the browser: \<^verbatim>\<open>io.emit\<close> has no target, \<^verbatim>\<open>browserSocket.emit\<close>
  has one.\<close>

datatype emit = Emit (emit_target: "socket option") (emit_name: string) (emit_payload: json)

text \<open>A continuation registered with \<^verbatim>\<open>setTimeout\<close> at lines 442--447; its closure holds
  \<^verbatim>\<open>finalWaSdp\<close>.\<close>

record timer =
  delay_ms :: nat
  timer_sdp :: string

text \<open>Lines 83--99, together with what the server has sent so far and its pending timers.\<close>

record server_state =
  browserPc :: "peer option"
  browserStream :: "track list option"
  whatsappPc :: "peer option"
  whatsappStream :: "track list option"
  browserOfferSdp :: json
  whatsappOfferSdp :: json
  browserSocket :: "socket option"
  currentCallId :: json
  isOutgoingCall :: bool
  outgoingCallState :: outgoing_call_state
  emitted :: "emit list"
  provider_log :: "provider_call list"
  timers :: "timer list"

definition idle_call_state :: outgoing_call_state where
  "idle_call_state = \<lparr>phoneNumber = JNull, callerName = JNull, callId = JNull, status = ''idle''\<rparr>"

definition initial_state :: server_state where
  "initial_state =
     \<lparr>browserPc = None, browserStream = None, whatsappPc = None, whatsappStream = None,
      browserOfferSdp = JNull, whatsappOfferSdp = JNull, browserSocket = None,
      currentCallId = JNull, isOutgoingCall = False, outgoingCallState = idle_call_state,
      emitted = [], provider_log = [], timers = []\<rparr>"

text \<open>Lines 104--113.\<close>

definition resetOutgoingCallState :: "server_state \<Rightarrow> server_state" where
  "resetOutgoingCallState s = s\<lparr>isOutgoingCall := False, outgoingCallState := idle_call_state\<rparr>"

datatype completion = Returned | Threw string

section \<open>Provider client\<close>

text \<open>Every operation posts one request to the provider (\<^verbatim>\<open>axios.post\<close>); the request and
  its outcome are appended to the log.\<close>

definition post_call ::
  "action \<Rightarrow> json \<Rightarrow> json \<Rightarrow> json \<Rightarrow> http_outcome \<Rightarrow> server_state \<Rightarrow> server_state" where
  "post_call a to cid sdp h s =
     s\<lparr>provider_log := provider_log s @
        [\<lparr>req_action = a, req_to = to, req_call_id = cid, req_sdp = sdp, req_outcome = h\<rparr>]\<rparr>"

definition failure_result :: "json \<Rightarrow> json" where
  "failure_result msg = JObj [(''success'', JBool False), (''error'', msg)]"

text \<open>
  Lines 460--519.  The \<^verbatim>\<open>try\<close> block first reads \<^verbatim>\<open>sdp.length\<close> (a TypeError on
  \<^verbatim>\<open>null\<close>/\<^verbatim>\<open>undefined\<close>, before any request is posted), then posts; on a confirmed response it
  interpolates \<^verbatim>\<open>phoneNumber\<close> in a log line (line 488) before it builds the result.  The
  \<^verbatim>\<open>catch\<close> block turns every error into a failure result.  \<open>now\<close> is the value of
  \<^verbatim>\<open>Date.now()\<close>.
\<close>

definition initiate_try ::
  "json \<Rightarrow> json \<Rightarrow> http_outcome \<Rightarrow> nat \<Rightarrow> server_state \<Rightarrow> server_state \<times> (js_error + json)" where
  "initiate_try phone sdp h now s =
     (if sdp = JNull \<or> sdp = JUndefined
      then (s, Inl (JsError ''Cannot read properties of null'' JUndefined))
      else
        let s' = post_call Connect phone JUndefined sdp h s in
        case h of
          Rejected e \<Rightarrow> (s', Inl e)
        | Resolved d \<Rightarrow>
            if get_field d ''success'' = JBool True
            then
              (if to_string_throws phone then (s', Inl conversion_error)
               else (s', Inr (JObj
                      [(''success'', JBool True),
                       (''callId'',
                          js_or (get_field d ''call_id'') (JStr (''outgoing_'' @ decimal now))),
                       (''data'', d)])))
            else (s', Inr (failure_result (JStr ''WhatsApp API did not confirm call initiation''))))"

definition initiate_error_message :: "js_error \<Rightarrow> json" where
  "initiate_error_message e =
     (if truthy (err_response_data e)
      then js_or (get_field (get_field (err_response_data e) ''error'') ''message'')
                 (JStr ''Failed to connect to WhatsApp API'')
      else JStr ''Failed to connect to WhatsApp API'')"

definition initiateWhatsAppCall ::
  "json \<Rightarrow> json \<Rightarrow> http_outcome \<Rightarrow> nat \<Rightarrow> server_state \<Rightarrow> server_state \<times> (js_error + json)" where
  "initiateWhatsAppCall phone sdp h now s =
     (case initiate_try phone sdp h now s of
        (s', Inl e) \<Rightarrow> (s', Inr (failure_result (initiate_error_message e)))
      | (s', Inr v) \<Rightarrow> (s', Inr v))"

text \<open>Lines 524--553: the result is a bare boolean.\<close>

definition answer_try ::
  "json \<Rightarrow> json \<Rightarrow> action \<Rightarrow> http_outcome \<Rightarrow> server_state \<Rightarrow> server_state \<times> (js_error + json)" where
  "answer_try cid sdp act h s =
     (let s' = post_call act JUndefined cid sdp h s in
      case h of
        Rejected e \<Rightarrow> (s', Inl e)
      | Resolved d \<Rightarrow> (s', Inr (JBool (get_field d ''success'' = JBool True))))"

definition answerCallToWhatsApp ::
  "json \<Rightarrow> json \<Rightarrow> action \<Rightarrow> http_outcome \<Rightarrow> server_state \<Rightarrow> server_state \<times> (js_error + json)" where
  "answerCallToWhatsApp cid sdp act h s =
     (case answer_try cid sdp act h s of
        (s', Inl e) \<Rightarrow> (s', Inr (JBool False))
      | (s', Inr v) \<Rightarrow> (s', Inr v))"

text \<open>
  Lines 559--587 and 593--621: \<^verbatim>\<open>return response.data\<close> whatever it holds; a rejected request
  is turned into a failure result.  After the request both branches of the \<^verbatim>\<open>try\<close> block
  interpolate \<^verbatim>\<open>callId\<close> in a log line (577/579, 611/613), and so does the \<^verbatim>\<open>catch\<close> block
  (584, 618) before it builds its result: a call id that cannot be converted makes the
  \<^verbatim>\<open>catch\<close> block itself throw, to the caller.
\<close>

definition simple_try ::
  "action \<Rightarrow> json \<Rightarrow> http_outcome \<Rightarrow> server_state \<Rightarrow> server_state \<times> (js_error + json)" where
  "simple_try act cid h s =
     (let s' = post_call act JUndefined cid JUndefined h s in
      case h of
        Rejected e \<Rightarrow> (s', Inl e)
      | Resolved d \<Rightarrow> if to_string_throws cid then (s', Inl conversion_error) else (s', Inr d))"

definition simple_catch :: "json \<Rightarrow> js_error \<Rightarrow> js_error + json" where
  "simple_catch cid e =
     (if to_string_throws cid then Inl conversion_error
      else Inr (failure_result (JStr (err_message e))))"

definition rejectCall ::
  "json \<Rightarrow> http_outcome \<Rightarrow> server_state \<Rightarrow> server_state \<times> (js_error + json)" where
  "rejectCall cid h s =
     (case simple_try Reject cid h s of
        (s', Inl e) \<Rightarrow> (s', simple_catch cid e)
      | (s', Inr v) \<Rightarrow> (s', Inr v))"

definition terminateCall ::
  "json \<Rightarrow> http_outcome \<Rightarrow> server_state \<Rightarrow> server_state \<times> (js_error + json)" where
  "terminateCall cid h s =
     (case simple_try Terminate cid h s of
        (s', Inl e) \<Rightarrow> (s', simple_catch cid e)
      | (s', Inr v) \<Rightarrow> (s', Inr v))"

section \<open>The bridge attempt\<close>

text \<open>
  What the peer engine and the provider do during one call of \<^verbatim>\<open>initiateWebRTCBridge\<close>:
  whether each \<^verbatim>\<open>setRemoteDescription\<close> resolves, which audio tracks the browser peer has
  delivered by line 414, the stream of the provider's first track (\<open>None\<close>: the 10000 ms timer
  of line 398 fires first), the SDP of each answer (\<open>None\<close>: \<^verbatim>\<open>createAnswer\<close> or
  \<^verbatim>\<open>setLocalDescription\<close> rejects), and the outcome of the \<^verbatim>\<open>pre_accept\<close> request.
\<close>

record bridge_env =
  browserRemoteOk :: bool
  browserTracks :: "track list"
  whatsappRemoteOk :: bool
  waTrack :: "track list option"
  browserAnswerSdp :: "string option"
  waAnswerSdp :: "string option"
  preAcceptHttp :: http_outcome

text \<open>Lines 373--434: both peers, the cross-wired audio, both answers.  The result is the
  provider answer's SDP, or the reason of the rejected \<^verbatim>\<open>await\<close>.\<close>

definition bridge_media :: "bridge_env \<Rightarrow> server_state \<Rightarrow> server_state \<times> (string + string)" where
  "bridge_media env s =
     (let s1 = s\<lparr>browserPc := Some new_peer, browserStream := Some []\<rparr> in
      if \<not> browserRemoteOk env then (s1, Inl ''setRemoteDescription failed'')
      else
        let bpc = new_peer\<lparr>remoteDescription := Some (browserOfferSdp s)\<rparr>;
            s2 = s1\<lparr>browserPc := Some bpc, browserStream := Some (browserTracks env),
                    whatsappPc := Some new_peer\<rparr> in
        if \<not> whatsappRemoteOk env then (s2, Inl ''setRemoteDescription failed'')
        else
          let wpc = new_peer\<lparr>remoteDescription := Some (whatsappOfferSdp s),
                             senders := browserTracks env\<rparr>;
              s3 = s2\<lparr>whatsappPc := Some wpc\<rparr> in
          case waTrack env of
            None \<Rightarrow> (s3, Inl ''Timed out waiting for WhatsApp track'')
          | Some ts \<Rightarrow>
              let bpc' = bpc\<lparr>senders := ts\<rparr>;
                  s4 = s3\<lparr>whatsappStream := Some ts, browserPc := Some bpc'\<rparr> in
              case browserAnswerSdp env of
                None \<Rightarrow> (s4, Inl ''createAnswer failed'')
              | Some ba \<Rightarrow>
                  let s5 = s4\<lparr>browserPc := Some (bpc'\<lparr>localDescription := Some ba\<rparr>),
                              emitted := emitted s4 @
                                [Emit (browserSocket s4) ''browser-answer'' (JStr ba)]\<rparr> in
                  case waAnswerSdp env of
                    None \<Rightarrow> (s5, Inl ''createAnswer failed'')
                  | Some wa \<Rightarrow>
                      (s5\<lparr>whatsappPc := Some (wpc\<lparr>localDescription := Some wa\<rparr>)\<rparr>, Inr wa))"

text \<open>Lines 435--455: the rewritten answer goes out as \<^verbatim>\<open>pre_accept\<close>; on success the
  \<^verbatim>\<open>accept\<close> continuation is registered with a delay of 1000 ms; then both offers are cleared.\<close>

definition bridge_handshake :: "bridge_env \<Rightarrow> string \<Rightarrow> server_state \<Rightarrow> server_state \<times> completion" where
  "bridge_handshake env wa s =
     (let final = finalWaSdp wa in
      case answerCallToWhatsApp (currentCallId s) (JStr final) PreAccept (preAcceptHttp env) s of
        (s1, Inl e) \<Rightarrow> (s1, Threw (err_message e))
      | (s1, Inr preAcceptSuccess) \<Rightarrow>
          let s2 = (if truthy preAcceptSuccess
                    then s1\<lparr>timers := timers s1 @ [\<lparr>delay_ms = 1000, timer_sdp = final\<rparr>]\<rparr>
                    else s1)
          in (s2\<lparr>browserOfferSdp := JNull, whatsappOfferSdp := JNull\<rparr>, Returned))"

text \<open>Lines 370--455.\<close>

definition initiateWebRTCBridge :: "bridge_env \<Rightarrow> server_state \<Rightarrow> server_state \<times> completion" where
  "initiateWebRTCBridge env s =
     (if \<not> truthy (browserOfferSdp s) \<or> \<not> truthy (whatsappOfferSdp s) \<or> browserSocket s = None
      then (s, Returned)
      else
        case bridge_media env s of
          (s1, Inl reason) \<Rightarrow> (s1, Threw reason)
        | (s1, Inr wa) \<Rightarrow> bridge_handshake env wa s1)"

text \<open>The continuation of lines 442--447, run when its timer fires (timers of equal delay
  fire in the order they were registered).\<close>

definition accept_timer_fires :: "http_outcome \<Rightarrow> server_state \<Rightarrow> server_state \<times> completion" where
  "accept_timer_fires h s =
     (case timers s of
        [] \<Rightarrow> (s, Returned)
      | t # ts \<Rightarrow>
          (case answerCallToWhatsApp (currentCallId s) (JStr (timer_sdp t)) Accept h
                  (s\<lparr>timers := ts\<rparr>) of
             (s1, Inl e) \<Rightarrow> (s1, Threw (err_message e))
           | (s1, Inr acceptSuccess) \<Rightarrow>
               if truthy acceptSuccess \<and> browserSocket s1 \<noteq> None
               then (s1\<lparr>emitted := emitted s1 @
                          [Emit (browserSocket s1) ''start-browser-timer'' JUndefined]\<rparr>, Returned)
               else (s1, Returned)))"

section \<open>Handlers\<close>

text \<open>
  Each handler is modelled as run from its first statement to its last, the result of every
  awaited operation being supplied with the input; the \<^verbatim>\<open>setTimeout\<close> continuation is an
  input of its own, so other inputs can arrive between \<^verbatim>\<open>pre_accept\<close> and \<^verbatim>\<open>accept\<close>.
  The \<^verbatim>\<open>browser-candidate\<close> handler (lines 190--201) and the verification endpoint (lines
  119--145) write none of the session variables and send nothing to the provider; they are
  left out.
\<close>

text \<open>Lines 154--187: \<^verbatim>\<open>socket.on("browser-offer")\<close>.\<close>

definition browser_offer ::
  "socket \<Rightarrow> json \<Rightarrow> http_outcome \<Rightarrow> nat \<Rightarrow> bridge_env \<Rightarrow> server_state \<Rightarrow> server_state \<times> completion" where
  "browser_offer sock sdp h now env s =
     (let s1 = s\<lparr>browserOfferSdp := sdp, browserSocket := Some sock\<rparr> in
      if isOutgoingCall s1 \<and> status (outgoingCallState s1) = ''waiting-for-sdp''
      then
        (case initiateWhatsAppCall (phoneNumber (outgoingCallState s1)) sdp h now s1 of
           (s2, Inl e) \<Rightarrow> (s2, Threw (err_message e))
         | (s2, Inr callResult) \<Rightarrow>
             if truthy (get_field callResult ''success'')
             then
               (s2\<lparr>currentCallId := get_field callResult ''callId'',
                   outgoingCallState := (outgoingCallState s2)
                     \<lparr>callId := get_field callResult ''callId'', status := ''ringing''\<rparr>,
                   emitted := emitted s2 @
                     [Emit None ''outgoing-call-initiated''
                        (JObj [(''callId'', get_field callResult ''callId''),
                               (''phoneNumber'', phoneNumber (outgoingCallState s2)),
                               (''callerName'', callerName (outgoingCallState s2))])]\<rparr>,
                Returned)
             else
               (let s3 = resetOutgoingCallState s2 in
                (s3\<lparr>emitted := emitted s3 @
                     [Emit None ''webrtc-error''
                        (JObj [(''error'', get_field callResult ''error'')])]\<rparr>,
                 Returned)))
      else initiateWebRTCBridge env s1)"

text \<open>Lines 204--213: \<^verbatim>\<open>reject-call\<close> and \<^verbatim>\<open>terminate-call\<close>.\<close>

definition reject_call :: "json \<Rightarrow> http_outcome \<Rightarrow> server_state \<Rightarrow> server_state \<times> completion" where
  "reject_call cid h s =
     (case rejectCall cid h s of
        (s1, Inl e) \<Rightarrow> (s1, Threw (err_message e))
      | (s1, Inr r) \<Rightarrow> (s1, Returned))"

definition terminate_call :: "json \<Rightarrow> http_outcome \<Rightarrow> server_state \<Rightarrow> server_state \<times> completion" where
  "terminate_call cid h s =
     (case terminateCall cid h s of
        (s1, Inl e) \<Rightarrow> (s1, Threw (err_message e))
      | (s1, Inr r) \<Rightarrow> (s1, Returned))"

text \<open>Lines 216--227: \<^verbatim>\<open>reject-outbound-call\<close>.  The payload of the emitted event is read
  from \<^verbatim>\<open>outgoingCallState\<close> after the reset.\<close>

definition reject_outbound_call :: "http_outcome \<Rightarrow> server_state \<Rightarrow> server_state \<times> completion" where
  "reject_outbound_call h s =
     (case (if truthy (callId (outgoingCallState s))
            then rejectCall (callId (outgoingCallState s)) h s
            else (s, Inr JUndefined)) of
        (s1, Inl e) \<Rightarrow> (s1, Threw (err_message e))
      | (s1, Inr r) \<Rightarrow>
          (let s2 = resetOutgoingCallState s1 in
           (s2\<lparr>emitted := emitted s2 @
                [Emit None ''outgoing-call-rejected''
                   (JObj [(''callId'', callId (outgoingCallState s2)),
                          (''phoneNumber'', phoneNumber (outgoingCallState s2))])]\<rparr>,
            Returned)))"

text \<open>Lines 229--237: \<^verbatim>\<open>terminate-outbound-call\<close>.\<close>

definition terminate_outbound_call :: "http_outcome \<Rightarrow> server_state \<Rightarrow> server_state \<times> completion" where
  "terminate_outbound_call h s =
     (case (if truthy (callId (outgoingCallState s))
            then terminateCall (callId (outgoingCallState s)) h s
            else (s, Inr JUndefined)) of
        (s1, Inl e) \<Rightarrow> (s1, Threw (err_message e))
      | (s1, Inr r) \<Rightarrow>
          (let s2 = resetOutgoingCallState s1 in
           (s2\<lparr>emitted := emitted s2 @ [Emit None ''call-ended'' JUndefined]\<rparr>, Returned)))"

text \<open>
  Lines 243--324: \<^verbatim>\<open>app.post("/webhook")\<close>.  \<open>call\<close> and \<open>contact\<close> are the values that lines
  247--250 extract from the body; the second component of the result is the HTTP status sent.
  Each branch writes a log line that interpolates values of the event (lines 267, 275, 282,
  292, 296, 306, 316); when such a value cannot be converted to a string, the branch stops
  there with a TypeError, which is caught at line 320 and answered with 500; what the
  handler had done so far is left in place.
\<close>

definition matches_outgoing :: "server_state \<Rightarrow> json \<Rightarrow> bool" where
  "matches_outgoing s cid = (isOutgoingCall s \<and> strict_eq (callId (outgoingCallState s)) cid)"

text \<open>Lines 260--279, the \<^verbatim>\<open>connect\<close> branch; \<open>s1\<close> is the state after line 258.\<close>

definition webhook_connect ::
  "json \<Rightarrow> json \<Rightarrow> bridge_env \<Rightarrow> server_state \<Rightarrow> server_state \<times> completion" where
  "webhook_connect call contact env s1 =
     (let cid = get_field call ''id'';
          s2 = s1\<lparr>whatsappOfferSdp := get_field (get_field call ''session'') ''sdp''\<rparr>;
          cname = js_or (get_field (get_field contact ''profile'') ''name'') (JStr ''Unknown'');
          cnumber = js_or (get_field contact ''wa_id'') (JStr ''Unknown'')
      in
        if matches_outgoing s2 cid then
          (if to_string_throws cnumber then (s2, Threw (err_message conversion_error))
           else
             initiateWebRTCBridge env
               (s2\<lparr>outgoingCallState := (outgoingCallState s2)\<lparr>status := ''connected''\<rparr>,
                   emitted := emitted s2 @
                     [Emit None ''outgoing-call-connected''
                        (JObj [(''callId'', cid), (''phoneNumber'', cnumber),
                               (''callerName'', cname)])]\<rparr>))
        else
          (if to_string_throws cname \<or> to_string_throws cnumber
           then (s2, Threw (err_message conversion_error))
           else
             initiateWebRTCBridge env
               (s2\<lparr>emitted := emitted s2 @
                     [Emit None ''call-is-coming''
                        (JObj [(''callId'', cid), (''callerName'', cname),
                               (''callerNumber'', cnumber)])]\<rparr>)))"

text \<open>Lines 281--293, the \<^verbatim>\<open>terminate\<close> branch.\<close>

definition webhook_terminate :: "json \<Rightarrow> server_state \<Rightarrow> server_state \<times> completion" where
  "webhook_terminate call s1 =
     (let cid = get_field call ''id'' in
      if to_string_throws cid then (s1, Threw (err_message conversion_error))
      else
        let s2 = (if matches_outgoing s1 cid then resetOutgoingCallState s1 else s1);
            s3 = s2\<lparr>emitted := emitted s2 @ [Emit None ''call-ended'' JUndefined]\<rparr>
        in
          if truthy (get_field call ''duration'') \<and> truthy (get_field call ''status'') \<and>
             (to_string_throws (get_field call ''duration'') \<or>
              to_string_throws (get_field call ''status''))
          then (s3, Threw (err_message conversion_error))
          else (s3, Returned))"

text \<open>Lines 295--303, the \<^verbatim>\<open>reject\<close> branch.\<close>

definition webhook_reject :: "json \<Rightarrow> server_state \<Rightarrow> server_state \<times> completion" where
  "webhook_reject call s1 =
     (let cid = get_field call ''id'' in
      if to_string_throws cid then (s1, Threw (err_message conversion_error))
      else if matches_outgoing s1 cid
      then
        (let pn = phoneNumber (outgoingCallState s1);
             s2 = resetOutgoingCallState s1
         in (s2\<lparr>emitted := emitted s2 @
                 [Emit None ''outgoing-call-rejected''
                    (JObj [(''callId'', cid), (''phoneNumber'', pn)])]\<rparr>, Returned))
      else (s1, Returned))"

text \<open>Lines 305--313, the \<^verbatim>\<open>timeout\<close> branch.\<close>

definition webhook_timeout :: "json \<Rightarrow> server_state \<Rightarrow> server_state \<times> completion" where
  "webhook_timeout call s1 =
     (let cid = get_field call ''id'' in
      if to_string_throws cid then (s1, Threw (err_message conversion_error))
      else if matches_outgoing s1 cid
      then
        (let pn = phoneNumber (outgoingCallState s1);
             s2 = resetOutgoingCallState s1
         in (s2\<lparr>emitted := emitted s2 @
                 [Emit None ''outgoing-call-timeout''
                    (JObj [(''callId'', cid), (''phoneNumber'', pn)])]\<rparr>, Returned))
      else (s1, Returned))"

text \<open>Lines 243--324: the guard, line 258, the branch on the event type, and the status
  the handler answers with (200 at line 319, 500 from the \<^verbatim>\<open>catch\<close> block).\<close>

definition webhook_post :: "json \<Rightarrow> json \<Rightarrow> bridge_env \<Rightarrow> server_state \<Rightarrow> server_state \<times> nat" where
  "webhook_post call contact env s =
     (if \<not> truthy call \<or> \<not> truthy (get_field call ''id'') \<or> \<not> truthy (get_field call ''event'')
      then (s, 200)
      else
        let s1 = s\<lparr>currentCallId := get_field call ''id''\<rparr>;
            ev = get_field call ''event''
        in
          case (if ev = JStr ''connect'' then webhook_connect call contact env s1
                else if ev = JStr ''terminate'' then webhook_terminate call s1
                else if ev = JStr ''reject'' then webhook_reject call s1
                else if ev = JStr ''timeout'' then webhook_timeout call s1
                else if to_string_throws ev then (s1, Threw (err_message conversion_error))
                else (s1, Returned)) of
            (s4, Returned) \<Rightarrow> (s4, 200)
          | (s4, Threw reason) \<Rightarrow> (s4, 500))"

text \<open>
  Lines 329--365: \<^verbatim>\<open>app.post("/initiate-call")\<close>, given the two fields of the body.  The
  response message interpolates \<^verbatim>\<open>phoneNumber\<close> (line 356) after the state has been set and
  the browser notified; a TypeError there is caught at line 358 and answered with 500.
\<close>

definition initiate_call_post :: "json \<Rightarrow> json \<Rightarrow> server_state \<Rightarrow> server_state \<times> nat" where
  "initiate_call_post pn cn s =
     (if \<not> truthy pn then (s, 400)
      else
        (s\<lparr>isOutgoingCall := True,
           outgoingCallState :=
             \<lparr>phoneNumber = pn, callerName = js_or cn (JStr ''Outgoing Call''),
              callId = JNull, status = ''waiting-for-sdp''\<rparr>,
           emitted := emitted s @
             [Emit None ''start-outgoing-call-webrtc''
                (JObj [(''phoneNumber'', pn),
                       (''callerName'', js_or cn (JStr ''Outgoing Call''))])]\<rparr>,
         if to_string_throws pn then 500 else 200))"

section \<open>Runs of the server\<close>

datatype input =
    BrowserOffer socket json http_outcome nat bridge_env
  | RejectCall json http_outcome
  | TerminateCall json http_outcome
  | RejectOutboundCall http_outcome
  | TerminateOutboundCall http_outcome
  | WebhookPost json json bridge_env
  | InitiateCallPost json json
  | AcceptTimer http_outcome

fun step :: "server_state \<Rightarrow> input \<Rightarrow> server_state" where
  "step s (BrowserOffer sock sdp h now env) = fst (browser_offer sock sdp h now env s)"
| "step s (RejectCall cid h) = fst (reject_call cid h s)"
| "step s (TerminateCall cid h) = fst (terminate_call cid h s)"
| "step s (RejectOutboundCall h) = fst (reject_outbound_call h s)"
| "step s (TerminateOutboundCall h) = fst (terminate_outbound_call h s)"
| "step s (WebhookPost call contact env) = fst (webhook_post call contact env s)"
| "step s (InitiateCallPost pn cn) = fst (initiate_call_post pn cn s)"
| "step s (AcceptTimer h) = fst (accept_timer_fires h s)"

definition run :: "server_state \<Rightarrow> input list \<Rightarrow> server_state" where
  "run s ins = foldl step s ins"

section \<open>Properties of requests, logs and runs\<close>

text \<open>A request succeeded when the response's \<^verbatim>\<open>success\<close> field is the boolean true.\<close>

definition call_succeeded :: "provider_call \<Rightarrow> bool" where
  "call_succeeded c =
     (case req_outcome c of
        Resolved d \<Rightarrow> get_field d ''success'' = JBool True
      | Rejected e \<Rightarrow> False)"

definition http_success :: "http_outcome \<Rightarrow> bool" where
  "http_success h =
     (case h of Resolved d \<Rightarrow> get_field d ''success'' = JBool True | Rejected e \<Rightarrow> False)"

text \<open>\<open>t\<close> is \<open>s\<close> with one occurrence of \<open>old\<close> replaced by \<open>new\<close> and nothing else changed.\<close>

definition substituted_once :: "string \<Rightarrow> string \<Rightarrow> string \<Rightarrow> string \<Rightarrow> bool" where
  "substituted_once old new s t =
     list_ex (\<lambda>i. take (length old) (drop i s) = old \<and>
                  t = take i s @ new @ drop (i + length old) s) [0..<Suc (length s)]"

text \<open>The peer engine delivers everything the bridge attempt waits for.\<close>

definition engine_ok :: "bridge_env \<Rightarrow> bool" where
  "engine_ok env =
     (browserRemoteOk env \<and> whatsappRemoteOk env \<and> waTrack env \<noteq> None \<and>
      browserAnswerSdp env \<noteq> None \<and> waAnswerSdp env \<noteq> None)"

definition guard_passes :: "server_state \<Rightarrow> bool" where
  "guard_passes s =
     (truthy (browserOfferSdp s) \<and> truthy (whatsappOfferSdp s) \<and> browserSocket s \<noteq> None)"

text \<open>Every \<^verbatim>\<open>accept\<close> in a log comes after a \<^verbatim>\<open>pre_accept\<close> for the same call id, and the most
  recent such \<^verbatim>\<open>pre_accept\<close> succeeded.  \<open>earlier\<close> holds the requests already seen, latest first.\<close>

fun accepts_after_pre_accept :: "provider_call list \<Rightarrow> provider_call list \<Rightarrow> bool" where
  "accepts_after_pre_accept earlier [] = True"
| "accepts_after_pre_accept earlier (c # cs) =
     ((if req_action c = Accept
       then (case find (\<lambda>p. req_action p = PreAccept \<and> req_call_id p = req_call_id c) earlier of
               None \<Rightarrow> False
             | Some p \<Rightarrow> call_succeeded p)
       else True) \<and>
      accepts_after_pre_accept (c # earlier) cs)"

text \<open>A successful \<^verbatim>\<open>pre_accept\<close> carrying this SDP is in the log.\<close>

definition pre_accepted :: "provider_call list \<Rightarrow> json \<Rightarrow> bool" where
  "pre_accepted log sdp =
     list_ex (\<lambda>p. req_action p = PreAccept \<and> call_succeeded p \<and> req_sdp p = sdp) log"

text \<open>Every \<^verbatim>\<open>accept\<close> in a log comes after a successful \<^verbatim>\<open>pre_accept\<close> with the same SDP.\<close>

fun accepts_justified :: "provider_call list \<Rightarrow> provider_call list \<Rightarrow> bool" where
  "accepts_justified earlier [] = True"
| "accepts_justified earlier (c # cs) =
     ((if req_action c = Accept then pre_accepted earlier (req_sdp c) else True) \<and>
      accepts_justified (earlier @ [c]) cs)"

definition start_timer_emits :: "emit list \<Rightarrow> nat" where
  "start_timer_emits es = length (filter (\<lambda>e. emit_name e = ''start-browser-timer'') es)"

definition successful_accepts :: "provider_call list \<Rightarrow> nat" where
  "successful_accepts log =
     length (filter (\<lambda>c. req_action c = Accept \<and> call_succeeded c) log)"

text \<open>What the handshake of a run guarantees (the three parts are proved together).\<close>

definition handshake_inv :: "server_state \<Rightarrow> bool" where
  "handshake_inv s =
     (list_all (\<lambda>t. delay_ms t = 1000 \<and> pre_accepted (provider_log s) (JStr (timer_sdp t)))
        (timers s) \<and>
      accepts_justified [] (provider_log s) \<and>
      start_timer_emits (emitted s) \<le> successful_accepts (provider_log s))"

text \<open>While the outgoing record holds a call id, its status is \<^verbatim>\<open>ringing\<close> or
  \<^verbatim>\<open>connected\<close>.\<close>

definition outbound_inv :: "server_state \<Rightarrow> bool" where
  "outbound_inv s =
     (callId (outgoingCallState s) = JNull \<or>
      status (outgoingCallState s) = ''ringing'' \<or>
      status (outgoingCallState s) = ''connected'')"

text \<open>The rows of the outbound transition table that provider events drive: a matching
  \<^verbatim>\<open>connect\<close> takes \<^verbatim>\<open>ringing\<close> to \<^verbatim>\<open>connected\<close>; a matching \<^verbatim>\<open>terminate\<close>, \<^verbatim>\<open>reject\<close> or
  \<^verbatim>\<open>timeout\<close> takes any state to \<^verbatim>\<open>idle\<close>.\<close>

definition provider_event_row :: "json \<Rightarrow> string \<Rightarrow> string \<Rightarrow> bool" where
  "provider_event_row ev a b =
     (if ev = JStr ''connect'' then a = ''ringing'' \<and> b = ''connected''
      else if ev = JStr ''terminate'' \<or> ev = JStr ''reject'' \<or> ev = JStr ''timeout''
      then b = ''idle''
      else False)"

definition outbound_unchanged :: "server_state \<Rightarrow> server_state \<Rightarrow> bool" where
  "outbound_unchanged s s' =
     (isOutgoingCall s' = isOutgoingCall s \<and> outgoingCallState s' = outgoingCallState s)"

definition webhook_step_conforms :: "server_state \<Rightarrow> json \<Rightarrow> server_state \<Rightarrow> bool" where
  "webhook_step_conforms s call s' =
     (if truthy call \<and> truthy (get_field call ''id'') \<and>
         matches_outgoing s (get_field call ''id'')
      then outbound_unchanged s s' \<or>
           provider_event_row (get_field call ''event'')
             (status (outgoingCallState s)) (status (outgoingCallState s'))
      else outbound_unchanged s s')"

fun webhooks_conform :: "server_state \<Rightarrow> (json \<times> json \<times> bridge_env) list \<Rightarrow> bool" where
  "webhooks_conform s [] = True"
| "webhooks_conform s ((call, contact, env) # ws) =
     (webhook_step_conforms s call (fst (webhook_post call contact env s)) \<and>
      webhooks_conform (fst (webhook_post call contact env s)) ws)"

text \<open>The body of a resolved response (\<^verbatim>\<open>undefined\<close> when the request was rejected).\<close>

definition response_data :: "http_outcome \<Rightarrow> json" where
  "response_data h = (case h of Resolved d \<Rightarrow> d | Rejected e \<Rightarrow> JUndefined)"

text \<open>When \<^verbatim>\<open>initiateWhatsAppCall\<close> gets to its success result: the SDP has a \<^verbatim>\<open>length\<close> to
  read, the provider confirmed, and the phone number can be written into the log line.\<close>

definition initiate_succeeds :: "json \<Rightarrow> json \<Rightarrow> http_outcome \<Rightarrow> bool" where
  "initiate_succeeds phone sdp h =
     (sdp \<noteq> JNull \<and> sdp \<noteq> JUndefined \<and> http_success h \<and> \<not> to_string_throws phone)"


text \<open>The requests a step has added to the log.\<close>

definition new_calls :: "server_state \<Rightarrow> server_state \<Rightarrow> provider_call list" where
  "new_calls s s' = drop (length (provider_log s)) (provider_log s')"

definition is_answer :: "provider_call \<Rightarrow> bool" where
  "is_answer c = (req_action c = PreAccept \<or> req_action c = Accept)"

definition well_formed_event :: "json \<Rightarrow> bool" where
  "well_formed_event call =
     (truthy call \<and> truthy (get_field call ''id'') \<and> truthy (get_field call ''event''))"

text \<open>Along a run, every \<^verbatim>\<open>pre_accept\<close>/\<^verbatim>\<open>accept\<close> carries the id of the latest well-formed
  webhook event received so far (\<open>last_id\<close>).\<close>

fun answers_use_webhook_id :: "server_state \<Rightarrow> json \<Rightarrow> input list \<Rightarrow> bool" where
  "answers_use_webhook_id s last_id [] = True"
| "answers_use_webhook_id s last_id (i # ins) =
     (let last_id' =
            (case i of
               WebhookPost call contact env \<Rightarrow>
                 if well_formed_event call then get_field call ''id'' else last_id
             | _ \<Rightarrow> last_id)
      in list_all (\<lambda>c. \<not> is_answer c \<or> req_call_id c = last_id') (new_calls s (step s i)) \<and>
         answers_use_webhook_id (step s i) last_id' ins)"

section \<open>Concrete inputs\<close>

definition ok_response :: http_outcome where
  "ok_response = Resolved (JObj [(''success'', JBool True)])"

definition ok_env :: bridge_env where
  "ok_env =
     \<lparr>browserRemoteOk = True, browserTracks = [1], whatsappRemoteOk = True,
      waTrack = Some [2], browserAnswerSdp = Some ''a=setup:active'',
      waAnswerSdp = Some ''v=0 a=setup:actpass x'', preAcceptHttp = ok_response\<rparr>"

definition connect_A :: json where
  "connect_A =
     JObj [(''id'', JStr ''A''), (''event'', JStr ''connect''),
           (''session'', JObj [(''sdp'', JStr ''wa-offer'')])]"

definition terminate_B :: json where
  "terminate_B = JObj [(''id'', JStr ''B''), (''event'', JStr ''terminate'')]"

definition inbound_ready :: server_state where
  "inbound_ready =
     initial_state\<lparr>browserOfferSdp := JStr ''b-offer'', whatsappOfferSdp := JStr ''wa-offer'',
                   browserSocket := Some 1, currentCallId := JStr ''A''\<rparr>"


definition failed_response :: http_outcome where
  "failed_response = Rejected (JsError ''Request failed with status code 400'' JUndefined)"

definition pre_accept_fails_env :: bridge_env where
  "pre_accept_fails_env = ok_env\<lparr>preAcceptHttp := failed_response\<rparr>"

definition track_timeout_env :: bridge_env where
  "track_timeout_env = ok_env\<lparr>waTrack := None\<rparr>"

definition outbound_ok_response :: http_outcome where
  "outbound_ok_response = Resolved (JObj [(''success'', JBool True), (''call_id'', JStr ''X'')])"

definition terminate_X :: json where
  "terminate_X = JObj [(''id'', JStr ''X''), (''event'', JStr ''terminate'')]"

definition connect_X :: json where
  "connect_X =
     JObj [(''id'', JStr ''X''), (''event'', JStr ''connect''),
           (''session'', JObj [(''sdp'', JStr ''wa-offer'')])]"

text \<open>An inbound call is bridged and pre-accepted; a webhook event for another call id arrives
  within the second before the \<^verbatim>\<open>accept\<close> continuation runs.\<close>

definition webhook_during_delay :: "input list" where
  "webhook_during_delay =
     [BrowserOffer 1 (JStr ''b-offer'') ok_response 0 ok_env,
      WebhookPost connect_A JUndefined ok_env,
      WebhookPost terminate_B JUndefined ok_env,
      AcceptTimer ok_response]"

text \<open>An inbound \<^verbatim>\<open>connect\<close> arrives before any browser is bound; an outbound call is then
  placed and confirmed by the provider with call id \<^verbatim>\<open>X\<close>; a second browser offer starts the
  bridge.\<close>

definition offer_after_outbound :: "input list" where
  "offer_after_outbound =
     [WebhookPost connect_A JUndefined ok_env,
      InitiateCallPost (JStr ''15551234567'') JUndefined,
      BrowserOffer 1 (JStr ''b-offer'') outbound_ok_response 0 ok_env,
      BrowserOffer 1 (JStr ''b-offer-2'') outbound_ok_response 0 ok_env]"

text \<open>An outbound call is placed, confirmed with call id \<^verbatim>\<open>X\<close>, and then terminated by the
  provider.\<close>

definition outbound_terminated :: "input list" where
  "outbound_terminated =
     [InitiateCallPost (JStr ''15551234567'') JUndefined,
      BrowserOffer 1 (JStr ''b-offer'') outbound_ok_response 0 ok_env,
      WebhookPost terminate_X JUndefined ok_env]"

text \<open>An outbound call is placed, confirmed, answered and bridged, and accepted.\<close>

definition outbound_answered :: "input list" where
  "outbound_answered =
     [InitiateCallPost (JStr ''15551234567'') JUndefined,
      BrowserOffer 1 (JStr ''b-offer'') outbound_ok_response 0 ok_env,
      WebhookPost connect_X JUndefined ok_env,
      AcceptTimer ok_response]"

text \<open>The state after an inbound \<^verbatim>\<open>connect\<close> for call \<^verbatim>\<open>A\<close>, no browser bound yet.\<close>

definition awaiting_browser :: server_state where
  "awaiting_browser = run initial_state [WebhookPost connect_A JUndefined ok_env]"

section \<open>Properties of a reset\<close>

text \<open>The session fields other than the outgoing call record and \<^verbatim>\<open>currentCallId\<close> hold
  what they held.\<close>

definition session_fields_kept :: "server_state \<Rightarrow> server_state \<Rightarrow> bool" where
  "session_fields_kept s s' =
     (browserPc s' = browserPc s \<and> browserStream s' = browserStream s \<and>
      whatsappPc s' = whatsappPc s \<and> whatsappStream s' = whatsappStream s \<and>
      browserOfferSdp s' = browserOfferSdp s \<and> whatsappOfferSdp s' = whatsappOfferSdp s \<and>
      browserSocket s' = browserSocket s)"

definition outbound_reset :: "server_state \<Rightarrow> bool" where
  "outbound_reset s = (\<not> isOutgoingCall s \<and> outgoingCallState s = idle_call_state)"

section \<open>Steps that post no accept\<close>

text \<open>A step from \<open>s\<close> to \<open>s'\<close> that only appends to the log and to the pending timers,
  posts no \<^verbatim>\<open>accept\<close>, emits no \<^verbatim>\<open>start-browser-timer\<close>, and registers only continuations
  with a delay of 1000 ms whose SDP was pre-accepted successfully in that same step.\<close>

definition quiet_step :: "server_state \<Rightarrow> server_state \<Rightarrow> bool" where
  "quiet_step s s' =
     (provider_log s' = provider_log s @ new_calls s s' \<and>
      timers s' = timers s @ drop (length (timers s)) (timers s') \<and>
      start_timer_emits (emitted s') = start_timer_emits (emitted s) \<and>
      list_all (\<lambda>c. req_action c \<noteq> Accept) (new_calls s s') \<and>
      list_all (\<lambda>t. delay_ms t = 1000 \<and> pre_accepted (new_calls s s') (JStr (timer_sdp t)))
        (drop (length (timers s)) (timers s')))"

section \<open>Facts about the replacement\<close>

lemma string_index_of_None: "string_index_of s pat = None \<longleftrightarrow> \<not> sublist pat s"
proof (induction s)
  case Nil
  then show ?case by simp
next
  case (Cons c cs)
  then show ?case by (auto simp: sublist_Cons_right)
qed

lemma string_index_of_first:
  assumes "pat \<noteq> []" and "\<not> sublist pat (butlast (pre @ pat))"
  shows "string_index_of (pre @ pat @ post) pat = Some (length pre)"
  using assms
proof (induction pre)
  case Nil
  then show ?case by (cases pat) simp_all
next
  case (Cons a pre)
  have notpre: "\<not> prefix pat (a # pre @ pat @ post)"
  proof
    assume p: "prefix pat (a # pre @ pat @ post)"
    have q: "prefix (butlast ((a # pre) @ pat)) (a # pre @ pat @ post)"
      using Cons.prems(1) prefixeq_butlast [of pat] by (simp add: butlast_append prefix_prefix)
    have "length pat \<le> length (butlast ((a # pre) @ pat))" by simp
    with p q have "prefix pat (butlast ((a # pre) @ pat))"
      by (metis prefix_length_prefix)
    then show False using Cons.prems(2) by (meson prefix_imp_sublist)
  qed
  have "\<not> sublist pat (butlast (pre @ pat))"
    using Cons.prems by (auto simp: butlast_append sublist_Cons_right)
  with Cons.IH Cons.prems(1) have "string_index_of (pre @ pat @ post) pat = Some (length pre)"
    by simp
  with notpre show ?case by simp
qed

lemma js_replace_first:
  assumes "pat \<noteq> []" and "\<not> sublist pat (butlast (pre @ pat))"
  shows "js_replace (pre @ pat @ post) pat rep = pre @ rep @ post"
  using string_index_of_first [OF assms, of post] by (simp add: js_replace_def)

lemma js_replace_absent: "\<not> sublist pat s \<Longrightarrow> js_replace s pat rep = s"
  using string_index_of_None [of s pat] by (simp add: js_replace_def)

lemma finalWaSdp_absent: "\<not> sublist ''a=setup:actpass'' wa \<Longrightarrow> finalWaSdp wa = wa"
  by (simp add: finalWaSdp_def js_replace_absent)

lemma finalWaSdp_first:
  assumes "wa = pre @ ''a=setup:actpass'' @ post"
    and "\<not> sublist ''a=setup:actpass'' (pre @ ''a=setup:actpas'')"
  shows "finalWaSdp wa = pre @ ''a=setup:active'' @ post"
proof -
  have "butlast (pre @ ''a=setup:actpass'') = pre @ ''a=setup:actpas''"
    by (simp add: butlast_append)
  with assms(2) have "\<not> sublist ''a=setup:actpass'' (butlast (pre @ ''a=setup:actpass''))"
    by simp
  then show ?thesis
    unfolding finalWaSdp_def assms(1) by (rule js_replace_first [rotated]) simp
qed

section \<open>Facts about the provider client and the bridge attempt\<close>

lemma to_string_throws_truthy: "to_string_throws v \<Longrightarrow> truthy v"
  by (cases v) simp_all

lemma strict_eq_eq: "strict_eq a b \<Longrightarrow> a = b"
  by (cases a) simp_all

lemma strict_eq_convertible: "strict_eq a b \<Longrightarrow> \<not> to_string_throws b"
  by (cases a) auto

lemma http_success_simps [simp]:
  "http_success (Resolved d) = (get_field d ''success'' = JBool True)"
  "http_success (Rejected e) = False"
  by (simp_all add: http_success_def)

lemma answer_result:
  "answerCallToWhatsApp cid sdp act h s =
     (post_call act JUndefined cid sdp h s, Inr (JBool (http_success h)))"
  by (cases h) (simp_all add: answerCallToWhatsApp_def answer_try_def Let_def)

lemma reject_result:
  "rejectCall cid h s =
     (post_call Reject JUndefined cid JUndefined h s,
      if to_string_throws cid then Inl conversion_error
      else Inr (case h of Resolved d \<Rightarrow> d
                        | Rejected e \<Rightarrow> failure_result (JStr (err_message e))))"
  by (simp add: rejectCall_def simple_try_def simple_catch_def Let_def
        split: http_outcome.splits)

lemma terminate_result:
  "terminateCall cid h s =
     (post_call Terminate JUndefined cid JUndefined h s,
      if to_string_throws cid then Inl conversion_error
      else Inr (case h of Resolved d \<Rightarrow> d
                        | Rejected e \<Rightarrow> failure_result (JStr (err_message e))))"
  by (simp add: terminateCall_def simple_try_def simple_catch_def Let_def
        split: http_outcome.splits)

lemma bridge_media_frame:
  "provider_log (fst (bridge_media env s)) = provider_log s"
  "timers (fst (bridge_media env s)) = timers s"
  "currentCallId (fst (bridge_media env s)) = currentCallId s"
  "isOutgoingCall (fst (bridge_media env s)) = isOutgoingCall s"
  "outgoingCallState (fst (bridge_media env s)) = outgoingCallState s"
  "browserOfferSdp (fst (bridge_media env s)) = browserOfferSdp s"
  "whatsappOfferSdp (fst (bridge_media env s)) = whatsappOfferSdp s"
  "browserSocket (fst (bridge_media env s)) = browserSocket s"
  by (simp_all add: bridge_media_def Let_def split: option.splits)

lemma bridge_media_engine_ok:
  assumes "engine_ok env"
  shows "snd (bridge_media env s) = Inr (the (waAnswerSdp env))"
  using assms by (auto simp: engine_ok_def bridge_media_def Let_def)

lemma bridge_media_not_ok:
  assumes "\<not> engine_ok env"
  shows "\<exists>r. snd (bridge_media env s) = Inl r"
  using assms by (auto simp: engine_ok_def bridge_media_def Let_def split: option.splits)

lemma bridge_handshake_eq:
  "bridge_handshake env wa s =
     (let s1 = post_call PreAccept JUndefined (currentCallId s) (JStr (finalWaSdp wa))
                 (preAcceptHttp env) s
      in (s1\<lparr>timers := timers s @
                (if http_success (preAcceptHttp env)
                 then [\<lparr>delay_ms = 1000, timer_sdp = finalWaSdp wa\<rparr>] else []),
             browserOfferSdp := JNull, whatsappOfferSdp := JNull\<rparr>, Returned))"
  by (simp add: bridge_handshake_def answer_result Let_def post_call_def)

lemma bridge_guard:
  "\<not> truthy (browserOfferSdp s) \<or> \<not> truthy (whatsappOfferSdp s) \<or> browserSocket s = None
   \<Longrightarrow> initiateWebRTCBridge env s = (s, Returned)"
  by (simp add: initiateWebRTCBridge_def)

lemma bridge_guard_repeat:
  "\<not> truthy (browserOfferSdp s) \<or> \<not> truthy (whatsappOfferSdp s) \<or> browserSocket s = None
   \<Longrightarrow> foldl (\<lambda>st e. fst (initiateWebRTCBridge e st)) s envs = s"
  by (induction envs) (simp_all add: bridge_guard)

lemma bridge_ok_eq:
  assumes "guard_passes s" "engine_ok env"
  shows "initiateWebRTCBridge env s =
           bridge_handshake env (the (waAnswerSdp env)) (fst (bridge_media env s))"
  using assms bridge_media_engine_ok [OF assms(2), of s]
  by (cases "bridge_media env s") (auto simp add: initiateWebRTCBridge_def guard_passes_def)

lemma bridge_fail_eq:
  assumes "guard_passes s" "\<not> engine_ok env"
  shows "\<exists>r. initiateWebRTCBridge env s = (fst (bridge_media env s), Threw r)"
  using assms bridge_media_not_ok [OF assms(2), of s]
  by (cases "bridge_media env s") (auto simp add: initiateWebRTCBridge_def guard_passes_def)

lemma new_calls_append: "provider_log s' = provider_log s @ cs \<Longrightarrow> new_calls s s' = cs"
  by (simp add: new_calls_def)

section \<open>The rewritten provider answer\<close>

text \<open>
  C1 (as amended).  When a bridge attempt passes its guard and the peer engine delivers the
  provider answer \<open>wa\<close>, exactly one \<^verbatim>\<open>pre_accept\<close> request is posted; it carries
  \<open>finalWaSdp wa\<close>, as does the \<^verbatim>\<open>accept\<close> continuation registered on success, and the
  \<^verbatim>\<open>accept\<close> request posted by a continuation carries the SDP that continuation holds.
  \<open>finalWaSdp wa\<close> is \<open>wa\<close> itself when \<^verbatim>\<open>a=setup:actpass\<close> does not occur in \<open>wa\<close>; otherwise
  it is \<open>wa\<close> with the first occurrence of \<^verbatim>\<open>a=setup:actpass\<close> replaced by \<^verbatim>\<open>a=setup:active\<close>,
  the bytes before and after that occurrence unchanged.
\<close>

theorem provider_answer_sdp_rewrite:
  assumes "guard_passes s" and "engine_ok env" and "waAnswerSdp env = Some wa"
  shows "snd (initiateWebRTCBridge env s) = Returned \<and>
         new_calls s (fst (initiateWebRTCBridge env s)) =
           [\<lparr>req_action = PreAccept, req_to = JUndefined, req_call_id = currentCallId s,
             req_sdp = JStr (finalWaSdp wa), req_outcome = preAcceptHttp env\<rparr>] \<and>
         timers (fst (initiateWebRTCBridge env s)) =
           timers s @ (if http_success (preAcceptHttp env)
                       then [\<lparr>delay_ms = 1000, timer_sdp = finalWaSdp wa\<rparr>] else []) \<and>
         (\<forall>h s2 t ts. timers s2 = t # ts \<longrightarrow>
            new_calls s2 (fst (accept_timer_fires h s2)) =
              [\<lparr>req_action = Accept, req_to = JUndefined, req_call_id = currentCallId s2,
                req_sdp = JStr (timer_sdp t), req_outcome = h\<rparr>]) \<and>
         (\<not> sublist ''a=setup:actpass'' wa \<longrightarrow> finalWaSdp wa = wa) \<and>
         (\<forall>pre post. wa = pre @ ''a=setup:actpass'' @ post \<and>
              \<not> sublist ''a=setup:actpass'' (pre @ ''a=setup:actpas'') \<longrightarrow>
              finalWaSdp wa = pre @ ''a=setup:active'' @ post)"
proof -
  have eq: "initiateWebRTCBridge env s = bridge_handshake env wa (fst (bridge_media env s))"
    using bridge_ok_eq [OF assms(1,2)] assms(3) by simp
  have a: "snd (initiateWebRTCBridge env s) = Returned"
    by (simp add: eq bridge_handshake_eq Let_def)
  have b: "new_calls s (fst (initiateWebRTCBridge env s)) =
           [\<lparr>req_action = PreAccept, req_to = JUndefined, req_call_id = currentCallId s,
             req_sdp = JStr (finalWaSdp wa), req_outcome = preAcceptHttp env\<rparr>]"
    by (rule new_calls_append)
       (simp add: eq bridge_handshake_eq Let_def post_call_def bridge_media_frame)
  have c: "timers (fst (initiateWebRTCBridge env s)) =
           timers s @ (if http_success (preAcceptHttp env)
                       then [\<lparr>delay_ms = 1000, timer_sdp = finalWaSdp wa\<rparr>] else [])"
    by (simp add: eq bridge_handshake_eq Let_def post_call_def bridge_media_frame)
  have d: "\<forall>h s2 t ts. timers s2 = t # ts \<longrightarrow>
            new_calls s2 (fst (accept_timer_fires h s2)) =
              [\<lparr>req_action = Accept, req_to = JUndefined, req_call_id = currentCallId s2,
                req_sdp = JStr (timer_sdp t), req_outcome = h\<rparr>]"
    by (auto simp: accept_timer_fires_def answer_result post_call_def new_calls_def)
  show ?thesis
    using a b c d finalWaSdp_absent [of wa] finalWaSdp_first [of wa] by blast
qed

theorem provider_answer_sdp_rewrite_witness:
  "guard_passes inbound_ready \<and> engine_ok ok_env \<and>
   waAnswerSdp ok_env = Some (''v=0 '' @ ''a=setup:actpass'' @ '' x'') \<and>
   \<not> sublist ''a=setup:actpass'' (''v=0 '' @ ''a=setup:actpas'') \<and>
   map req_sdp (new_calls inbound_ready (fst (initiateWebRTCBridge ok_env inbound_ready))) =
     [JStr ''v=0 a=setup:active x'']"
proof -
  have g: "guard_passes inbound_ready"
    by (simp add: guard_passes_def inbound_ready_def initial_state_def)
  have e: "engine_ok ok_env"
    by (simp add: engine_ok_def ok_env_def)
  have w: "waAnswerSdp ok_env = Some (''v=0 '' @ ''a=setup:actpass'' @ '' x'')"
    by (simp add: ok_env_def)
  have n: "\<not> sublist ''a=setup:actpass'' (''v=0 '' @ ''a=setup:actpas'')"
    by (simp add: sublist_code)
  from provider_answer_sdp_rewrite [OF g e w] n
  have "finalWaSdp (''v=0 '' @ ''a=setup:actpass'' @ '' x'') = ''v=0 '' @ ''a=setup:active'' @ '' x''"
    by blast
  with provider_answer_sdp_rewrite [OF g e w] g e w n show ?thesis
    by simp
qed

text \<open>
  C1 as stated fails: an answer in which \<^verbatim>\<open>setup:actpass\<close> does not occur (here one that
  already says \<^verbatim>\<open>a=setup:active\<close>) is sent unchanged, so no substitution separates the two
  strings.
\<close>

theorem exactly_one_substitution_counterexample:
  "finalWaSdp ''a=setup:active'' = ''a=setup:active'' \<and>
   \<not> substituted_once ''setup:actpass'' ''setup:active''
        ''a=setup:active'' (finalWaSdp ''a=setup:active'')"
  by (simp add: finalWaSdp_def js_replace_def substituted_once_def upt_rec)

section \<open>The guard of the bridge attempt\<close>

text \<open>
  C3.  When the browser offer is null, or the provider offer is null, or no signaling handle
  is bound, the bridge attempt returns and the whole state (peers, streams, session fields,
  emitted events, posted requests, pending timers) is what it was; the same holds after any
  number of repeated attempts.
\<close>

theorem bridge_guard_no_effect:
  assumes "browserOfferSdp s = JNull \<or> whatsappOfferSdp s = JNull \<or> browserSocket s = None"
  shows "initiateWebRTCBridge env s = (s, Returned) \<and>
         foldl (\<lambda>st e. fst (initiateWebRTCBridge e st)) s envs = s"
proof -
  from assms
  have "\<not> truthy (browserOfferSdp s) \<or> \<not> truthy (whatsappOfferSdp s) \<or> browserSocket s = None"
    by auto
  then show ?thesis
    by (simp add: bridge_guard bridge_guard_repeat)
qed

theorem bridge_guard_no_effect_witness:
  "(browserOfferSdp initial_state = JNull \<or> whatsappOfferSdp initial_state = JNull \<or>
    browserSocket initial_state = None) \<and>
   initiateWebRTCBridge ok_env initial_state = (initial_state, Returned) \<and>
   foldl (\<lambda>st e. fst (initiateWebRTCBridge e st)) initial_state [ok_env, track_timeout_env, ok_env]
     = initial_state"
proof -
  have h: "browserOfferSdp initial_state = JNull \<or> whatsappOfferSdp initial_state = JNull \<or>
    browserSocket initial_state = None"
    by (simp add: initial_state_def)
  show ?thesis
    using h bridge_guard_no_effect [OF h, of ok_env "[ok_env, track_timeout_env, ok_env]"]
    by blast
qed

section \<open>Evaluating concrete runs\<close>

lemmas handler_defs =
  browser_offer_def reject_call_def terminate_call_def reject_outbound_call_def
  terminate_outbound_call_def webhook_post_def initiate_call_post_def accept_timer_fires_def
  initiateWebRTCBridge_def bridge_media_def bridge_handshake_def
  initiateWhatsAppCall_def initiate_try_def answer_result reject_result terminate_result
  post_call_def resetOutgoingCallState_def idle_call_state_def matches_outgoing_def
  failure_result_def js_or_def new_peer_def webhook_connect_def webhook_terminate_def
  webhook_reject_def webhook_timeout_def conversion_error_def

lemmas example_defs =
  ok_response_def ok_env_def connect_A_def terminate_B_def inbound_ready_def
  failed_response_def pre_accept_fails_env_def track_timeout_env_def outbound_ok_response_def
  terminate_X_def connect_X_def initial_state_def

lemma awaiting_browser_eq:
  "awaiting_browser =
     initial_state\<lparr>currentCallId := JStr ''A'', whatsappOfferSdp := JStr ''wa-offer'',
       emitted := [Emit None ''call-is-coming''
          (JObj [(''callId'', JStr ''A''), (''callerName'', JStr ''Unknown''),
                 (''callerNumber'', JStr ''Unknown'')])]\<rparr>"
  by (simp add: awaiting_browser_def run_def handler_defs example_defs Let_def)

lemma ringing_X_eq:
  "run initial_state (butlast outbound_terminated) =
     initial_state\<lparr>browserOfferSdp := JStr ''b-offer'', browserSocket := Some 1,
       currentCallId := JStr ''X'', isOutgoingCall := True,
       outgoingCallState := \<lparr>phoneNumber = JStr ''15551234567'',
         callerName = JStr ''Outgoing Call'', callId = JStr ''X'', status = ''ringing''\<rparr>,
       emitted := emitted (run initial_state (butlast outbound_terminated)),
       provider_log := provider_log (run initial_state (butlast outbound_terminated))\<rparr>"
  by (simp add: run_def outbound_terminated_def handler_defs example_defs Let_def)

lemma initiate_result:
  "snd (initiateWhatsAppCall phone sdp h now s) =
     Inr (if initiate_succeeds phone sdp h
          then JObj [(''success'', JBool True),
                     (''callId'', js_or (get_field (response_data h) ''call_id'')
                                   (JStr (''outgoing_'' @ decimal now))),
                     (''data'', response_data h)]
          else failure_result
                 (if sdp = JNull \<or> sdp = JUndefined \<or> http_success h
                  then JStr ''Failed to connect to WhatsApp API''
                  else case h of
                         Resolved d \<Rightarrow> JStr ''WhatsApp API did not confirm call initiation''
                       | Rejected e \<Rightarrow> initiate_error_message e))"
  by (cases h)
     (simp_all add: initiateWhatsAppCall_def initiate_try_def Let_def initiate_error_message_def
        initiate_succeeds_def response_data_def conversion_error_def)



section \<open>Rejecting an outbound call from the browser\<close>

text \<open>
  C9.  Whatever the outgoing call record held and whatever the provider answered, the
  \<^verbatim>\<open>outgoing-call-rejected\<close> event that the \<^verbatim>\<open>reject-outbound-call\<close> handler emits carries
  \<^verbatim>\<open>callId: null\<close> and \<^verbatim>\<open>phoneNumber: null\<close>: the record is reset before the payload is read
  from it.  The handler emits that one event and nothing else; only when the stored call id
  cannot be converted to a string does \<^verbatim>\<open>rejectCall\<close> throw, and the handler then stops before
  the reset and emits nothing.
\<close>

theorem reject_outbound_payload:
  "emitted (fst (reject_outbound_call h s)) =
     emitted s @
       (if to_string_throws (callId (outgoingCallState s)) then []
        else [Emit None ''outgoing-call-rejected''
                (JObj [(''callId'', JNull), (''phoneNumber'', JNull)])]) \<and>
   snd (reject_outbound_call h s) =
     (if to_string_throws (callId (outgoingCallState s))
      then Threw (err_message conversion_error)
      else Returned)"
  using to_string_throws_truthy [of "callId (outgoingCallState s)"]
  by (simp add: reject_outbound_call_def reject_result resetOutgoingCallState_def
        idle_call_state_def post_call_def Let_def)

theorem reject_outbound_payload_witness:
  "callId (outgoingCallState (run initial_state (butlast outbound_terminated))) = JStr ''X'' \<and>
   phoneNumber (outgoingCallState (run initial_state (butlast outbound_terminated))) =
     JStr ''15551234567'' \<and>
   emitted (fst (reject_outbound_call ok_response
                   (run initial_state (butlast outbound_terminated)))) =
     emitted (run initial_state (butlast outbound_terminated)) @
       [Emit None ''outgoing-call-rejected''
          (JObj [(''callId'', JNull), (''phoneNumber'', JNull)])] \<and>
   snd (reject_outbound_call ok_response (run initial_state (butlast outbound_terminated))) =
     Returned"
proof -
  let ?r = "run initial_state (butlast outbound_terminated)"
  have a: "callId (outgoingCallState ?r) = JStr ''X''"
    "phoneNumber (outgoingCallState ?r) = JStr ''15551234567''"
    by (subst ringing_X_eq, simp)+
  from reject_outbound_payload [of ok_response ?r] a show ?thesis
    by simp
qed

section \<open>What a completed bridge attempt leaves behind\<close>

text \<open>
  C7 (as amended).  A bridge attempt that passes its guard and is served by the peer engine
  returns with \<^verbatim>\<open>browserOfferSdp\<close> and \<^verbatim>\<open>whatsappOfferSdp\<close> both null, whether the
  \<^verbatim>\<open>pre_accept\<close> request succeeded or failed; a failed \<^verbatim>\<open>pre_accept\<close> only means that no
  \<^verbatim>\<open>accept\<close> continuation is registered.  \<^verbatim>\<open>currentCallId\<close>, the signaling handle and the
  outgoing call record are left as they were in both cases.
\<close>

theorem bridge_completion_clears_offers:
  assumes "guard_passes s" and "engine_ok env"
  shows "snd (initiateWebRTCBridge env s) = Returned \<and>
         browserOfferSdp (fst (initiateWebRTCBridge env s)) = JNull \<and>
         whatsappOfferSdp (fst (initiateWebRTCBridge env s)) = JNull \<and>
         timers (fst (initiateWebRTCBridge env s)) =
           timers s @ (if http_success (preAcceptHttp env)
                       then [\<lparr>delay_ms = 1000,
                              timer_sdp = finalWaSdp (the (waAnswerSdp env))\<rparr>]
                       else []) \<and>
         currentCallId (fst (initiateWebRTCBridge env s)) = currentCallId s \<and>
         browserSocket (fst (initiateWebRTCBridge env s)) = browserSocket s \<and>
         isOutgoingCall (fst (initiateWebRTCBridge env s)) = isOutgoingCall s \<and>
         outgoingCallState (fst (initiateWebRTCBridge env s)) = outgoingCallState s"
  by (simp add: bridge_ok_eq [OF assms] bridge_handshake_eq Let_def post_call_def
        bridge_media_frame)

theorem bridge_completion_clears_offers_witness:
  "guard_passes inbound_ready \<and> engine_ok pre_accept_fails_env \<and>
   snd (initiateWebRTCBridge pre_accept_fails_env inbound_ready) = Returned \<and>
   browserOfferSdp (fst (initiateWebRTCBridge pre_accept_fails_env inbound_ready)) = JNull \<and>
   whatsappOfferSdp (fst (initiateWebRTCBridge pre_accept_fails_env inbound_ready)) = JNull \<and>
   timers (fst (initiateWebRTCBridge pre_accept_fails_env inbound_ready)) = []"
proof -
  have g: "guard_passes inbound_ready"
    by (simp add: guard_passes_def inbound_ready_def initial_state_def)
  have e: "engine_ok pre_accept_fails_env"
    by (simp add: engine_ok_def pre_accept_fails_env_def ok_env_def)
  have t: "timers inbound_ready = []" "\<not> http_success (preAcceptHttp pre_accept_fails_env)"
    by (simp_all add: inbound_ready_def initial_state_def pre_accept_fails_env_def
          failed_response_def)
  show ?thesis
    using g e t bridge_completion_clears_offers [OF g e] by simp
qed

text \<open>
  C7 as stated fails in its second half: after a bridge attempt whose \<^verbatim>\<open>pre_accept\<close> request
  was refused, both offer fields are null, not the values they held before the attempt.
\<close>

theorem offers_kept_after_failed_pre_accept_counterexample:
  "\<not> http_success (preAcceptHttp pre_accept_fails_env) \<and>
   browserOfferSdp inbound_ready = JStr ''b-offer'' \<and>
   whatsappOfferSdp inbound_ready = JStr ''wa-offer'' \<and>
   snd (initiateWebRTCBridge pre_accept_fails_env inbound_ready) = Returned \<and>
   browserOfferSdp (fst (initiateWebRTCBridge pre_accept_fails_env inbound_ready)) = JNull \<and>
   whatsappOfferSdp (fst (initiateWebRTCBridge pre_accept_fails_env inbound_ready)) = JNull"
  by (simp add: handler_defs example_defs Let_def)

section \<open>The wait for the provider's first track\<close>

text \<open>
  C8 (what the code does when the wait times out).  When a bridge attempt has passed its
  guard and set both remote descriptions, and the provider's track does not come within the
  10000 ms, the attempt is aborted with the reason \<^verbatim>\<open>Timed out waiting for WhatsApp track\<close>:
  nothing is emitted to the browser, nothing is posted to the provider, no continuation is
  registered, and both offers and both half-built peers stay in place.  In the
  \<^verbatim>\<open>browser-offer\<close> handler nobody catches the rejection; the webhook handler catches it and
  answers the provider with status 500.
\<close>

theorem track_timeout_not_reported:
  assumes "guard_passes s" and "browserRemoteOk env" and "whatsappRemoteOk env"
    and "waTrack env = None"
  shows "snd (initiateWebRTCBridge env s) = Threw ''Timed out waiting for WhatsApp track'' \<and>
         emitted (fst (initiateWebRTCBridge env s)) = emitted s \<and>
         provider_log (fst (initiateWebRTCBridge env s)) = provider_log s \<and>
         timers (fst (initiateWebRTCBridge env s)) = timers s \<and>
         browserOfferSdp (fst (initiateWebRTCBridge env s)) = browserOfferSdp s \<and>
         whatsappOfferSdp (fst (initiateWebRTCBridge env s)) = whatsappOfferSdp s \<and>
         browserPc (fst (initiateWebRTCBridge env s)) \<noteq> None \<and>
         whatsappPc (fst (initiateWebRTCBridge env s)) \<noteq> None"
  using assms
  by (simp add: initiateWebRTCBridge_def guard_passes_def bridge_media_def Let_def)

theorem track_timeout_not_reported_witness:
  "guard_passes (awaiting_browser\<lparr>browserOfferSdp := JStr ''b-offer'', browserSocket := Some 1\<rparr>) \<and>
   browserRemoteOk track_timeout_env \<and> whatsappRemoteOk track_timeout_env \<and>
   waTrack track_timeout_env = None \<and>
   browser_offer 1 (JStr ''b-offer'') ok_response 0 track_timeout_env awaiting_browser =
     initiateWebRTCBridge track_timeout_env
       (awaiting_browser\<lparr>browserOfferSdp := JStr ''b-offer'', browserSocket := Some 1\<rparr>) \<and>
   snd (browser_offer 1 (JStr ''b-offer'') ok_response 0 track_timeout_env awaiting_browser) =
     Threw ''Timed out waiting for WhatsApp track'' \<and>
   map emit_name (emitted (fst (browser_offer 1 (JStr ''b-offer'') ok_response 0
                                  track_timeout_env awaiting_browser))) = [''call-is-coming''] \<and>
   snd (webhook_post connect_A JUndefined track_timeout_env
          (fst (browser_offer 1 (JStr ''b-offer'') ok_response 0 ok_env initial_state))) = 500 \<and>
   map emit_name (emitted (fst (webhook_post connect_A JUndefined track_timeout_env
          (fst (browser_offer 1 (JStr ''b-offer'') ok_response 0 ok_env initial_state))))) =
     [''call-is-coming'']"
proof -
  let ?s1 = "awaiting_browser\<lparr>browserOfferSdp := JStr ''b-offer'', browserSocket := Some 1\<rparr>"
  have g: "guard_passes ?s1"
    by (simp add: guard_passes_def awaiting_browser_eq)
  have e: "browserRemoteOk track_timeout_env" "whatsappRemoteOk track_timeout_env"
    "waTrack track_timeout_env = None"
    by (simp_all add: track_timeout_env_def ok_env_def)
  have b: "browser_offer 1 (JStr ''b-offer'') ok_response 0 track_timeout_env awaiting_browser =
     initiateWebRTCBridge track_timeout_env ?s1"
    by (simp add: browser_offer_def awaiting_browser_eq initial_state_def Let_def)
  have em: "map emit_name (emitted ?s1) = [''call-is-coming'']"
    by (simp add: awaiting_browser_eq)
  have w: "snd (webhook_post connect_A JUndefined track_timeout_env
          (fst (browser_offer 1 (JStr ''b-offer'') ok_response 0 ok_env initial_state))) = 500 \<and>
   map emit_name (emitted (fst (webhook_post connect_A JUndefined track_timeout_env
          (fst (browser_offer 1 (JStr ''b-offer'') ok_response 0 ok_env initial_state))))) =
     [''call-is-coming'']"
    by (simp add: handler_defs example_defs Let_def)
  from track_timeout_not_reported [OF g e] g e b em w show ?thesis
    by simp
qed

section \<open>Results of the provider client\<close>




section \<open>Invariants of the handshake\<close>

lemma bridge_cases:
  "initiateWebRTCBridge env s = (s, Returned) \<or>
   (\<exists>r. initiateWebRTCBridge env s = (fst (bridge_media env s), Threw r)) \<or>
   initiateWebRTCBridge env s =
     bridge_handshake env (the (waAnswerSdp env)) (fst (bridge_media env s))"
proof (cases "guard_passes s")
  case True
  then show ?thesis
    using bridge_ok_eq [of s env] bridge_fail_eq [of s env] by blast
next
  case False
  then show ?thesis
    using bridge_guard [of s env] by (auto simp: guard_passes_def)
qed

lemma bridge_frame:
  "currentCallId (fst (initiateWebRTCBridge env s)) = currentCallId s"
  "isOutgoingCall (fst (initiateWebRTCBridge env s)) = isOutgoingCall s"
  "outgoingCallState (fst (initiateWebRTCBridge env s)) = outgoingCallState s"
  "browserSocket (fst (initiateWebRTCBridge env s)) = browserSocket s"
  using bridge_cases [of env s]
  by (auto simp: bridge_media_frame bridge_handshake_eq Let_def post_call_def)

lemma bridge_media_emits:
  "start_timer_emits (emitted (fst (bridge_media env s))) = start_timer_emits (emitted s)"
  by (simp add: bridge_media_def Let_def start_timer_emits_def split: option.splits)

lemma call_succeeded_simp [simp]:
  "call_succeeded \<lparr>req_action = a, req_to = t, req_call_id = c, req_sdp = d, req_outcome = h\<rparr>
     = http_success h"
  by (simp add: call_succeeded_def http_success_def)

lemma bridge_quiet: "quiet_step s (fst (initiateWebRTCBridge env s))"
  using bridge_cases [of env s]
proof (elim disjE exE)
  assume "initiateWebRTCBridge env s = (s, Returned)"
  then show ?thesis by (simp add: quiet_step_def new_calls_def)
next
  fix r assume "initiateWebRTCBridge env s = (fst (bridge_media env s), Threw r)"
  then show ?thesis
    by (simp add: quiet_step_def new_calls_def bridge_media_frame bridge_media_emits)
next
  assume "initiateWebRTCBridge env s =
     bridge_handshake env (the (waAnswerSdp env)) (fst (bridge_media env s))"
  then show ?thesis
    by (simp add: quiet_step_def new_calls_def bridge_handshake_eq Let_def post_call_def
          bridge_media_frame bridge_media_emits pre_accepted_def)
qed

lemma quiet_step_cong:
  assumes "provider_log s1 = provider_log s" "timers s1 = timers s"
    "start_timer_emits (emitted s1) = start_timer_emits (emitted s)"
  shows "quiet_step s1 s2 = quiet_step s s2"
  using assms by (simp add: quiet_step_def new_calls_def)

lemma bridge_quiet_after:
  assumes "provider_log s1 = provider_log s" "timers s1 = timers s"
    "start_timer_emits (emitted s1) = start_timer_emits (emitted s)"
  shows "quiet_step s (fst (initiateWebRTCBridge env s1))"
  using bridge_quiet [of s1 env] quiet_step_cong [OF assms] by simp

lemma initiate_state:
  "fst (initiateWhatsAppCall phone sdp h now s) =
     (if sdp = JNull \<or> sdp = JUndefined then s else post_call Connect phone JUndefined sdp h s)"
  by (cases h) (simp_all add: initiateWhatsAppCall_def initiate_try_def Let_def)

lemma initiate_pair:
  "initiateWhatsAppCall phone sdp h now s =
     (fst (initiateWhatsAppCall phone sdp h now s), snd (initiateWhatsAppCall phone sdp h now s))"
  by simp

lemma browser_offer_quiet: "quiet_step s (fst (browser_offer sock sdp h now env s))"
proof (cases "isOutgoingCall s \<and> status (outgoingCallState s) = ''waiting-for-sdp''")
  case True
  obtain r where r: "snd (initiateWhatsAppCall (phoneNumber (outgoingCallState s)) sdp h now
      (s\<lparr>browserOfferSdp := sdp, browserSocket := Some sock\<rparr>)) = Inr r"
    using initiate_result by blast
  show ?thesis
    using True r
    by (subst browser_offer_def)
       (simp add: Let_def split_beta initiate_state quiet_step_def new_calls_def post_call_def
          resetOutgoingCallState_def start_timer_emits_def)
next
  case False
  then show ?thesis
    by (auto simp: browser_offer_def Let_def bridge_quiet_after)
qed

lemma reject_call_quiet: "quiet_step s (fst (reject_call cid h s))"
  by (simp add: reject_call_def reject_result quiet_step_def new_calls_def post_call_def)

lemma terminate_call_quiet: "quiet_step s (fst (terminate_call cid h s))"
  by (simp add: terminate_call_def terminate_result quiet_step_def new_calls_def post_call_def)

lemma reject_outbound_quiet: "quiet_step s (fst (reject_outbound_call h s))"
  by (simp add: reject_outbound_call_def reject_result quiet_step_def new_calls_def post_call_def
        resetOutgoingCallState_def start_timer_emits_def Let_def)

lemma terminate_outbound_quiet: "quiet_step s (fst (terminate_outbound_call h s))"
  by (simp add: terminate_outbound_call_def terminate_result quiet_step_def new_calls_def
        post_call_def resetOutgoingCallState_def start_timer_emits_def Let_def)

lemma initiate_call_post_quiet: "quiet_step s (fst (initiate_call_post pn cn s))"
  by (simp add: initiate_call_post_def quiet_step_def new_calls_def start_timer_emits_def)

lemma fst_with_status:
  "fst (case p of (s4, Returned) \<Rightarrow> (s4, a) | (s4, Threw r) \<Rightarrow> (s4, b)) = fst p"
  by (simp split: prod.splits completion.splits)

lemma quiet_emit:
  assumes "provider_log s' = provider_log s" "timers s' = timers s"
    "start_timer_emits (emitted s') = start_timer_emits (emitted s)"
  shows "quiet_step s s'"
  using assms by (simp add: quiet_step_def new_calls_def)

lemma bridge_log:
  "provider_log (fst (initiateWebRTCBridge env s)) =
     provider_log s @
       (if guard_passes s \<and> engine_ok env
        then [\<lparr>req_action = PreAccept, req_to = JUndefined, req_call_id = currentCallId s,
               req_sdp = JStr (finalWaSdp (the (waAnswerSdp env))),
               req_outcome = preAcceptHttp env\<rparr>]
        else [])"
proof (cases "guard_passes s")
  case False
  then show ?thesis using bridge_guard [of s env] by (auto simp: guard_passes_def)
next
  case g: True
  show ?thesis
  proof (cases "engine_ok env")
    case True
    with g show ?thesis
      by (simp add: bridge_ok_eq bridge_handshake_eq Let_def post_call_def bridge_media_frame)
  next
    case False
    with g bridge_fail_eq [of s env] show ?thesis
      by (auto simp: bridge_media_frame)
  qed
qed

lemma matches_outgoing_upd [simp]:
  "matches_outgoing (s\<lparr>currentCallId := c\<rparr>) cid = matches_outgoing s cid"
  "matches_outgoing (s\<lparr>whatsappOfferSdp := w\<rparr>) cid = matches_outgoing s cid"
  by (simp_all add: matches_outgoing_def)

lemma matches_convertible:
  "matches_outgoing s cid \<Longrightarrow> to_string_throws cid = False"
  "to_string_throws cid \<Longrightarrow> matches_outgoing s cid = False"
  by (auto simp: matches_outgoing_def dest: strict_eq_convertible)

lemma webhook_connect_quiet:
  assumes "provider_log s1 = provider_log s" "timers s1 = timers s"
    "start_timer_emits (emitted s1) = start_timer_emits (emitted s)"
  shows "quiet_step s (fst (webhook_connect call contact env s1))"
  using assms
  by (simp add: webhook_connect_def Let_def bridge_quiet_after quiet_emit start_timer_emits_def)

lemma webhook_terminate_quiet:
  assumes "provider_log s1 = provider_log s" "timers s1 = timers s"
    "start_timer_emits (emitted s1) = start_timer_emits (emitted s)"
  shows "quiet_step s (fst (webhook_terminate call s1))"
  using assms
  by (simp add: webhook_terminate_def Let_def quiet_emit start_timer_emits_def
        resetOutgoingCallState_def)

lemma webhook_reject_quiet:
  assumes "provider_log s1 = provider_log s" "timers s1 = timers s"
    "start_timer_emits (emitted s1) = start_timer_emits (emitted s)"
  shows "quiet_step s (fst (webhook_reject call s1))"
  using assms
  by (simp add: webhook_reject_def Let_def quiet_emit start_timer_emits_def
        resetOutgoingCallState_def)

lemma webhook_timeout_quiet:
  assumes "provider_log s1 = provider_log s" "timers s1 = timers s"
    "start_timer_emits (emitted s1) = start_timer_emits (emitted s)"
  shows "quiet_step s (fst (webhook_timeout call s1))"
  using assms
  by (simp add: webhook_timeout_def Let_def quiet_emit start_timer_emits_def
        resetOutgoingCallState_def)

lemma webhook_post_quiet: "quiet_step s (fst (webhook_post call contact env s))"
  by (simp add: webhook_post_def Let_def fst_with_status webhook_connect_quiet
        webhook_terminate_quiet webhook_reject_quiet webhook_timeout_quiet quiet_emit)

lemma pre_accepted_append:
  "pre_accepted (xs @ ys) sdp = (pre_accepted xs sdp \<or> pre_accepted ys sdp)"
  by (simp add: pre_accepted_def)

lemma accepts_justified_append:
  "accepts_justified e (xs @ ys) = (accepts_justified e xs \<and> accepts_justified (e @ xs) ys)"
  by (induction xs arbitrary: e) auto

lemma accepts_justified_no_accept:
  "list_all (\<lambda>c. req_action c \<noteq> Accept) cs \<Longrightarrow> accepts_justified e cs"
  by (induction cs arbitrary: e) auto

lemma successful_accepts_append:
  "successful_accepts (xs @ ys) = successful_accepts xs + successful_accepts ys"
  by (simp add: successful_accepts_def)

lemma handshake_inv_quiet:
  assumes "handshake_inv s" and "quiet_step s s'"
  shows "handshake_inv s'"
proof -
  let ?cs = "new_calls s s'" and ?ts = "drop (length (timers s)) (timers s')"
  from assms(2) have log: "provider_log s' = provider_log s @ ?cs"
    and tm: "timers s' = timers s @ ?ts"
    and em: "start_timer_emits (emitted s') = start_timer_emits (emitted s)"
    and na: "list_all (\<lambda>c. req_action c \<noteq> Accept) ?cs"
    and nt: "list_all (\<lambda>t. delay_ms t = 1000 \<and> pre_accepted ?cs (JStr (timer_sdp t))) ?ts"
    by (simp_all add: quiet_step_def)
  from assms(1) have old: "list_all (\<lambda>t. delay_ms t = 1000 \<and>
        pre_accepted (provider_log s) (JStr (timer_sdp t))) (timers s)"
    and aj: "accepts_justified [] (provider_log s)"
    and le: "start_timer_emits (emitted s) \<le> successful_accepts (provider_log s)"
    by (simp_all add: handshake_inv_def)
  have t1: "list_all (\<lambda>t. delay_ms t = 1000 \<and>
        pre_accepted (provider_log s @ ?cs) (JStr (timer_sdp t))) (timers s)"
    using old by (simp add: list_all_iff pre_accepted_append)
  have t2: "list_all (\<lambda>t. delay_ms t = 1000 \<and>
        pre_accepted (provider_log s @ ?cs) (JStr (timer_sdp t))) ?ts"
    using nt by (simp add: list_all_iff pre_accepted_append)
  have "list_all (\<lambda>t. delay_ms t = 1000 \<and>
        pre_accepted (provider_log s') (JStr (timer_sdp t))) (timers s')"
    by (subst tm, subst log) (use t1 t2 in simp)
  moreover have "accepts_justified [] (provider_log s')"
    by (subst log) (simp add: accepts_justified_append aj accepts_justified_no_accept [OF na])
  moreover have "start_timer_emits (emitted s') \<le> successful_accepts (provider_log s')"
    by (subst log) (use em le in \<open>simp add: successful_accepts_append\<close>)
  ultimately show ?thesis by (simp add: handshake_inv_def)
qed

lemma handshake_inv_timer:
  assumes "handshake_inv s"
  shows "handshake_inv (fst (accept_timer_fires h s))"
proof (cases "timers s")
  case Nil
  with assms show ?thesis by (simp add: accept_timer_fires_def)
next
  case (Cons t ts)
  from assms Cons have old: "list_all (\<lambda>t. delay_ms t = 1000 \<and>
        pre_accepted (provider_log s) (JStr (timer_sdp t))) ts"
    and this_one: "pre_accepted (provider_log s) (JStr (timer_sdp t))"
    and aj: "accepts_justified [] (provider_log s)"
    and le: "start_timer_emits (emitted s) \<le> successful_accepts (provider_log s)"
    by (simp_all add: handshake_inv_def)
  have t1: "list_all (\<lambda>t. delay_ms t = 1000 \<and>
        pre_accepted (provider_log s @ cs) (JStr (timer_sdp t))) ts" for cs
    using old by (simp add: list_all_iff pre_accepted_append)
  show ?thesis
    using Cons t1 this_one aj le
    by (simp add: accept_timer_fires_def answer_result post_call_def handshake_inv_def
          accepts_justified_append successful_accepts_append successful_accepts_def
          start_timer_emits_def)
qed

lemma handshake_inv_step: "handshake_inv s \<Longrightarrow> handshake_inv (step s i)"
  by (cases i)
     (simp_all add: handshake_inv_timer handshake_inv_quiet browser_offer_quiet
        reject_call_quiet terminate_call_quiet reject_outbound_quiet terminate_outbound_quiet
        webhook_post_quiet initiate_call_post_quiet)

lemma handshake_inv_run: "handshake_inv s \<Longrightarrow> handshake_inv (run s ins)"
  unfolding run_def by (induction ins arbitrary: s) (simp_all add: handshake_inv_step)

lemma handshake_inv_initial: "handshake_inv initial_state"
  by (simp add: handshake_inv_def initial_state_def start_timer_emits_def successful_accepts_def)

lemma quiet_step_no_accept:
  "quiet_step s s' \<Longrightarrow> filter (\<lambda>c. req_action c = Accept) (new_calls s s') = []"
  by (simp add: quiet_step_def list_all_iff filter_empty_conv)

lemma step_accepts:
  "map req_call_id (filter (\<lambda>c. req_action c = Accept) (new_calls s (step s i))) =
     (case i of
        AcceptTimer h \<Rightarrow> (if timers s = [] then [] else [currentCallId s])
      | _ \<Rightarrow> [])"
proof (cases i)
  case (AcceptTimer h)
  then show ?thesis
    by (simp add: accept_timer_fires_def answer_result post_call_def new_calls_def
          split: list.splits)
qed (simp_all add: quiet_step_no_accept browser_offer_quiet reject_call_quiet
       terminate_call_quiet reject_outbound_quiet terminate_outbound_quiet webhook_post_quiet
       initiate_call_post_quiet)

lemma delay_run_eq:
  "provider_log (run initial_state webhook_during_delay) =
     [\<lparr>req_action = PreAccept, req_to = JUndefined, req_call_id = JStr ''A'',
       req_sdp = JStr ''v=0 a=setup:active x'', req_outcome = ok_response\<rparr>,
      \<lparr>req_action = Accept, req_to = JUndefined, req_call_id = JStr ''B'',
       req_sdp = JStr ''v=0 a=setup:active x'', req_outcome = ok_response\<rparr>]"
  by (simp add: run_def webhook_during_delay_def handler_defs example_defs Let_def
        finalWaSdp_def js_replace_def)

section \<open>Invariants of the outgoing call record\<close>

lemma webhook_connect_frame:
  "isOutgoingCall (fst (webhook_connect call contact env s1)) = isOutgoingCall s1"
  "currentCallId (fst (webhook_connect call contact env s1)) = currentCallId s1"
  "outgoingCallState (fst (webhook_connect call contact env s1)) =
     (if matches_outgoing s1 (get_field call ''id'') \<and>
         \<not> to_string_throws (js_or (get_field contact ''wa_id'') (JStr ''Unknown''))
      then (outgoingCallState s1)\<lparr>status := ''connected''\<rparr>
      else outgoingCallState s1)"
  by (simp_all add: webhook_connect_def Let_def bridge_frame)

lemma webhook_terminate_frame:
  "isOutgoingCall (fst (webhook_terminate call s1)) =
     (if matches_outgoing s1 (get_field call ''id'') then False else isOutgoingCall s1)"
  "outgoingCallState (fst (webhook_terminate call s1)) =
     (if matches_outgoing s1 (get_field call ''id'') then idle_call_state
      else outgoingCallState s1)"
  "currentCallId (fst (webhook_terminate call s1)) = currentCallId s1"
  "session_fields_kept s1 (fst (webhook_terminate call s1))"
  "provider_log (fst (webhook_terminate call s1)) = provider_log s1"
  by (simp_all add: webhook_terminate_def Let_def resetOutgoingCallState_def
        matches_convertible session_fields_kept_def)

lemma webhook_reject_frame:
  "isOutgoingCall (fst (webhook_reject call s1)) =
     (if matches_outgoing s1 (get_field call ''id'') then False else isOutgoingCall s1)"
  "outgoingCallState (fst (webhook_reject call s1)) =
     (if matches_outgoing s1 (get_field call ''id'') then idle_call_state
      else outgoingCallState s1)"
  "currentCallId (fst (webhook_reject call s1)) = currentCallId s1"
  "session_fields_kept s1 (fst (webhook_reject call s1))"
  "provider_log (fst (webhook_reject call s1)) = provider_log s1"
  by (simp_all add: webhook_reject_def Let_def resetOutgoingCallState_def
        matches_convertible session_fields_kept_def)

lemma webhook_timeout_frame:
  "isOutgoingCall (fst (webhook_timeout call s1)) =
     (if matches_outgoing s1 (get_field call ''id'') then False else isOutgoingCall s1)"
  "outgoingCallState (fst (webhook_timeout call s1)) =
     (if matches_outgoing s1 (get_field call ''id'') then idle_call_state
      else outgoingCallState s1)"
  "currentCallId (fst (webhook_timeout call s1)) = currentCallId s1"
  "session_fields_kept s1 (fst (webhook_timeout call s1))"
  "provider_log (fst (webhook_timeout call s1)) = provider_log s1"
  by (simp_all add: webhook_timeout_def Let_def resetOutgoingCallState_def
        matches_convertible session_fields_kept_def)

lemmas webhook_frames =
  webhook_connect_frame webhook_terminate_frame(1-3) webhook_reject_frame(1-3)
  webhook_timeout_frame(1-3)

lemma webhook_outgoing_state:
  "outgoingCallState (fst (webhook_post call contact env s)) =
     (if well_formed_event call \<and> matches_outgoing s (get_field call ''id'')
      then (if get_field call ''event'' = JStr ''connect''
            then (if to_string_throws (js_or (get_field contact ''wa_id'') (JStr ''Unknown''))
                  then outgoingCallState s
                  else (outgoingCallState s)\<lparr>status := ''connected''\<rparr>)
            else if get_field call ''event'' = JStr ''terminate'' \<or>
                    get_field call ''event'' = JStr ''reject'' \<or>
                    get_field call ''event'' = JStr ''timeout''
            then idle_call_state
            else outgoingCallState s)
      else outgoingCallState s)"
  by (simp add: webhook_post_def Let_def fst_with_status well_formed_event_def
        webhook_frames)

lemma webhook_is_outgoing:
  "isOutgoingCall (fst (webhook_post call contact env s)) =
     (if well_formed_event call \<and> matches_outgoing s (get_field call ''id'') \<and>
         (get_field call ''event'' = JStr ''terminate'' \<or>
          get_field call ''event'' = JStr ''reject'' \<or>
          get_field call ''event'' = JStr ''timeout'')
      then False
      else isOutgoingCall s)"
  by (simp add: webhook_post_def Let_def fst_with_status well_formed_event_def
        webhook_frames)

lemma webhook_current_call_id:
  "currentCallId (fst (webhook_post call contact env s)) =
     (if well_formed_event call then get_field call ''id'' else currentCallId s)"
  by (simp add: webhook_post_def Let_def fst_with_status well_formed_event_def
        webhook_frames)


lemmas webhook_outbound = webhook_outgoing_state webhook_is_outgoing

lemma webhook_step_ok:
  assumes "outbound_inv s"
  shows "webhook_step_conforms s call (fst (webhook_post call contact env s))"
proof (cases "well_formed_event call \<and> matches_outgoing s (get_field call ''id'')")
  case False
  then show ?thesis
    by (simp add: webhook_step_conforms_def outbound_unchanged_def webhook_outbound)
next
  case True
  then have m: "matches_outgoing s (get_field call ''id'')"
    and t: "truthy call" "truthy (get_field call ''id'')"
    by (simp_all add: well_formed_event_def)
  from m have "callId (outgoingCallState s) = get_field call ''id''"
    by (auto simp: matches_outgoing_def dest: strict_eq_eq)
  with t(2) have "callId (outgoingCallState s) \<noteq> JNull" by auto
  with assms have st: "status (outgoingCallState s) = ''ringing'' \<or>
                   status (outgoingCallState s) = ''connected''"
    by (simp add: outbound_inv_def)
  show ?thesis
  proof (cases "get_field call ''event'' = JStr ''connect''")
    case connect: True
    from st show ?thesis
    proof
      assume "status (outgoingCallState s) = ''ringing''"
      with True connect m t show ?thesis
        by (simp add: webhook_step_conforms_def provider_event_row_def webhook_outbound
              outbound_unchanged_def)
    next
      assume "status (outgoingCallState s) = ''connected''"
      then have "(outgoingCallState s)\<lparr>status := ''connected''\<rparr> = outgoingCallState s"
        by simp
      with True connect m t show ?thesis
        by (simp add: webhook_step_conforms_def outbound_unchanged_def webhook_outbound)
    qed
  next
    case other: False
    with True m t show ?thesis
      by (simp add: webhook_step_conforms_def provider_event_row_def webhook_outbound
            outbound_unchanged_def idle_call_state_def)
  qed
qed

lemma webhook_outbound_inv:
  assumes "outbound_inv s"
  shows "outbound_inv (fst (webhook_post call contact env s))"
  using assms by (simp add: outbound_inv_def webhook_outbound idle_call_state_def)

lemma webhooks_conform_inv:
  "outbound_inv s \<Longrightarrow> webhooks_conform s ws"
proof (induction ws arbitrary: s)
  case Nil
  then show ?case by simp
next
  case (Cons w ws)
  obtain call contact env where w: "w = (call, contact, env)" by (cases w) auto
  from Cons.prems have "webhook_step_conforms s call (fst (webhook_post call contact env s))"
    by (rule webhook_step_ok)
  moreover from Cons.prems have "outbound_inv (fst (webhook_post call contact env s))"
    by (rule webhook_outbound_inv)
  ultimately show ?case using Cons.IH w by simp
qed


lemma browser_offer_outbound_inv:
  assumes "outbound_inv s"
  shows "outbound_inv (fst (browser_offer sock sdp h now env s))"
proof (cases "isOutgoingCall s \<and> status (outgoingCallState s) = ''waiting-for-sdp''")
  case True
  obtain r where r: "snd (initiateWhatsAppCall (phoneNumber (outgoingCallState s)) sdp h now
      (s\<lparr>browserOfferSdp := sdp, browserSocket := Some sock\<rparr>)) = Inr r"
    using initiate_result by blast
  show ?thesis
    using True r
    by (subst browser_offer_def)
       (simp add: Let_def split_beta initiate_state outbound_inv_def post_call_def
          resetOutgoingCallState_def idle_call_state_def)
next
  case False
  with assms show ?thesis
    by (auto simp: browser_offer_def Let_def outbound_inv_def bridge_frame)
qed

lemma step_outbound_inv:
  assumes "outbound_inv s"
  shows "outbound_inv (step s i)"
proof (cases i)
  case (BrowserOffer sock sdp h now env)
  with assms show ?thesis by (simp add: browser_offer_outbound_inv)
next
  case (WebhookPost call contact env)
  with assms show ?thesis by (simp add: webhook_outbound_inv)
next
  case (RejectCall cid h)
  with assms show ?thesis
    by (simp add: outbound_inv_def reject_call_def reject_result post_call_def)
next
  case (TerminateCall cid h)
  with assms show ?thesis
    by (simp add: outbound_inv_def terminate_call_def terminate_result post_call_def)
next
  case (RejectOutboundCall h)
  with assms show ?thesis
    by (simp add: outbound_inv_def reject_outbound_call_def reject_result post_call_def
          resetOutgoingCallState_def idle_call_state_def Let_def)
next
  case (TerminateOutboundCall h)
  with assms show ?thesis
    by (simp add: outbound_inv_def terminate_outbound_call_def terminate_result post_call_def
          resetOutgoingCallState_def idle_call_state_def Let_def)
next
  case (InitiateCallPost pn cn)
  with assms show ?thesis
    by (simp add: outbound_inv_def initiate_call_post_def)
next
  case (AcceptTimer h)
  with assms show ?thesis
    by (simp add: outbound_inv_def accept_timer_fires_def answer_result post_call_def
          split: list.splits)
qed

lemma run_outbound_inv: "outbound_inv s \<Longrightarrow> outbound_inv (run s ins)"
  unfolding run_def by (induction ins arbitrary: s) (simp_all add: step_outbound_inv)

lemma outbound_inv_initial: "outbound_inv initial_state"
  by (simp add: outbound_inv_def initial_state_def idle_call_state_def)

lemma ringing_X_outgoing:
  "isOutgoingCall (run initial_state (butlast outbound_terminated))"
  "outgoingCallState (run initial_state (butlast outbound_terminated)) =
     \<lparr>phoneNumber = JStr ''15551234567'', callerName = JStr ''Outgoing Call'',
      callId = JStr ''X'', status = ''ringing''\<rparr>"
  by (subst ringing_X_eq, simp)+

section \<open>Where the call id of an answer comes from\<close>

lemma webhook_connect_answers:
  "list_all (\<lambda>c. \<not> is_answer c \<or> req_call_id c = currentCallId s1)
     (drop (length (provider_log s1))
        (provider_log (fst (webhook_connect call contact env s1))))"
  by (simp add: webhook_connect_def Let_def bridge_log)

lemma webhook_malformed:
  "\<not> well_formed_event call \<Longrightarrow> webhook_post call contact env s = (s, 200)"
  by (auto simp: webhook_post_def well_formed_event_def)

lemma step_answers:
  "list_all (\<lambda>c. \<not> is_answer c \<or> req_call_id c = currentCallId (step s i))
     (new_calls s (step s i))"
proof (cases i)
  case (BrowserOffer sock sdp h now env)
  show ?thesis
  proof (cases "isOutgoingCall s \<and> status (outgoingCallState s) = ''waiting-for-sdp''")
    case True
    obtain r where r: "snd (initiateWhatsAppCall (phoneNumber (outgoingCallState s)) sdp h now
        (s\<lparr>browserOfferSdp := sdp, browserSocket := Some sock\<rparr>)) = Inr r"
      using initiate_result by blast
    show ?thesis
      using True r unfolding BrowserOffer step.simps
      by (subst (1 2) browser_offer_def)
         (simp add: Let_def split_beta initiate_state new_calls_def post_call_def
            resetOutgoingCallState_def is_answer_def)
  next
    case False
    then show ?thesis
      unfolding BrowserOffer step.simps
      by (auto simp: browser_offer_def Let_def new_calls_def bridge_log bridge_frame)
  qed
next
  case (WebhookPost call contact env)
  have a: "list_all (\<lambda>c. \<not> is_answer c \<or> req_call_id c = get_field call ''id'')
     (drop (length (provider_log s))
        (provider_log (fst (webhook_connect call contact env
                              (s\<lparr>currentCallId := get_field call ''id''\<rparr>)))))"
    using webhook_connect_answers [of "s\<lparr>currentCallId := get_field call ''id''\<rparr>"
        call contact env]
    by simp
  show ?thesis
  proof (cases "well_formed_event call")
    case True
    with a show ?thesis
      unfolding WebhookPost step.simps
      by (simp add: webhook_current_call_id)
         (simp add: webhook_post_def well_formed_event_def Let_def fst_with_status new_calls_def
            webhook_terminate_frame(5) webhook_reject_frame(5) webhook_timeout_frame(5))
  next
    case False
    then show ?thesis
      unfolding WebhookPost step.simps
      by (simp add: webhook_malformed new_calls_def)
  qed
qed (simp_all add: new_calls_def reject_call_def terminate_call_def reject_result
       terminate_result reject_outbound_call_def terminate_outbound_call_def
       initiate_call_post_def accept_timer_fires_def answer_result post_call_def
       resetOutgoingCallState_def Let_def is_answer_def split: list.splits)


lemma step_current_call_id:
  "currentCallId (step s i) = currentCallId s \<or>
   (\<exists>call contact env. i = WebhookPost call contact env \<and> well_formed_event call \<and>
      currentCallId (step s i) = get_field call ''id'') \<or>
   (\<exists>sock sdp h now env. i = BrowserOffer sock sdp h now env \<and> isOutgoingCall s \<and>
      status (outgoingCallState s) = ''waiting-for-sdp'' \<and> http_success h)"
proof (cases i)
  case (BrowserOffer sock sdp h now env)
  show ?thesis
  proof (cases "isOutgoingCall s \<and> status (outgoingCallState s) = ''waiting-for-sdp''")
    case True
    have r: "snd (initiateWhatsAppCall (phoneNumber (outgoingCallState s)) sdp h now
        (s\<lparr>browserOfferSdp := sdp, browserSocket := Some sock\<rparr>)) =
        Inr (if initiate_succeeds (phoneNumber (outgoingCallState s)) sdp h
          then JObj [(''success'', JBool True),
                     (''callId'', js_or (get_field (response_data h) ''call_id'')
                                   (JStr (''outgoing_'' @ decimal now))),
                     (''data'', response_data h)]
          else failure_result
                 (if sdp = JNull \<or> sdp = JUndefined \<or> http_success h
                  then JStr ''Failed to connect to WhatsApp API''
                  else case h of
                         Resolved d \<Rightarrow> JStr ''WhatsApp API did not confirm call initiation''
                       | Rejected e \<Rightarrow> initiate_error_message e))"
      by (rule initiate_result)
    show ?thesis
    proof (cases "http_success h")
      case h: True
      with True BrowserOffer show ?thesis by simp
    next
      case False
      with True r show ?thesis
        unfolding BrowserOffer step.simps
        by (subst browser_offer_def)
           (simp add: Let_def split_beta initiate_state post_call_def
              resetOutgoingCallState_def failure_result_def initiate_succeeds_def)
    qed
  next
    case False
    then show ?thesis
      unfolding BrowserOffer step.simps
      by (auto simp: browser_offer_def Let_def bridge_frame)
  qed
next
  case (WebhookPost call contact env)
  then show ?thesis
    by (simp add: webhook_current_call_id)
qed (simp_all add: reject_call_def terminate_call_def reject_result
       terminate_result reject_outbound_call_def terminate_outbound_call_def
       initiate_call_post_def accept_timer_fires_def answer_result post_call_def
       resetOutgoingCallState_def Let_def split: list.splits)

lemma pre_accepted_A_eq:
  "run initial_state (take 2 webhook_during_delay) =
     (run initial_state (take 2 webhook_during_delay))
       \<lparr>currentCallId := JStr ''A'', browserSocket := Some 1, provider_log :=
          [\<lparr>req_action = PreAccept, req_to = JUndefined, req_call_id = JStr ''A'',
            req_sdp = JStr ''v=0 a=setup:active x'', req_outcome = ok_response\<rparr>],
         timers := [\<lparr>delay_ms = 1000, timer_sdp = ''v=0 a=setup:active x''\<rparr>]\<rparr>"
  by (simp add: run_def webhook_during_delay_def handler_defs example_defs Let_def
        finalWaSdp_def js_replace_def)

section \<open>The two-phase handshake\<close>

text \<open>
  C2 (as amended).  In every run of the server: every pending \<^verbatim>\<open>accept\<close> continuation has a
  delay of 1000 ms and was registered for an SDP whose \<^verbatim>\<open>pre_accept\<close> succeeded; every
  \<^verbatim>\<open>accept\<close> request in the log comes after a successful \<^verbatim>\<open>pre_accept\<close> request carrying the
  same SDP; and \<^verbatim>\<open>start-browser-timer\<close> has been emitted at most as often as an \<^verbatim>\<open>accept\<close>
  request succeeded.  An \<^verbatim>\<open>accept\<close> is posted only by such a continuation, and its call id is
  the value \<^verbatim>\<open>currentCallId\<close> holds when the continuation runs.
\<close>

theorem accept_only_after_pre_accept:
  "handshake_inv (run initial_state ins) \<and>
   map req_call_id (filter (\<lambda>c. req_action c = Accept) (new_calls s (step s i))) =
     (case i of
        AcceptTimer h \<Rightarrow> (if timers s = [] then [] else [currentCallId s])
      | _ \<Rightarrow> [])"
  using handshake_inv_run [OF handshake_inv_initial, of ins] step_accepts [of s i]
  by simp

theorem accept_only_after_pre_accept_witness:
  "map req_action (provider_log (run initial_state webhook_during_delay)) = [PreAccept, Accept] \<and>
   accepts_justified [] (provider_log (run initial_state webhook_during_delay)) \<and>
   start_timer_emits (emitted (run initial_state webhook_during_delay))
     \<le> successful_accepts (provider_log (run initial_state webhook_during_delay)) \<and>
   successful_accepts (provider_log (run initial_state webhook_during_delay)) = 1"
  using accept_only_after_pre_accept [of webhook_during_delay initial_state "AcceptTimer ok_response"]
  by (simp add: handshake_inv_def delay_run_eq successful_accepts_def ok_response_def)

text \<open>
  C2 as stated fails in its "same call id": a webhook event for call \<^verbatim>\<open>B\<close> that arrives
  during the one-second delay overwrites \<^verbatim>\<open>currentCallId\<close>, so the \<^verbatim>\<open>accept\<close> goes out for
  \<^verbatim>\<open>B\<close>, for which no \<^verbatim>\<open>pre_accept\<close> was ever sent.
\<close>

theorem accept_for_other_call_id_counterexample:
  "map req_action (provider_log (run initial_state webhook_during_delay)) = [PreAccept, Accept] \<and>
   map req_call_id (provider_log (run initial_state webhook_during_delay)) = [JStr ''A'', JStr ''B''] \<and>
   \<not> accepts_after_pre_accept [] (provider_log (run initial_state webhook_during_delay))"
  by (simp add: delay_run_eq)

section \<open>Provider events and the outgoing call record\<close>

text \<open>
  C4.  From any state the server can reach, along any sequence of webhook events, each event
  either leaves \<^verbatim>\<open>isOutgoingCall\<close> and \<^verbatim>\<open>outgoingCallState\<close> as they were, or it is a
  well-formed event whose id matches the outgoing call and the status moves along a row of
  the transition table: \<^verbatim>\<open>ringing\<close> to \<^verbatim>\<open>connected\<close> on \<^verbatim>\<open>connect\<close>, any status to \<^verbatim>\<open>idle\<close> on
  \<^verbatim>\<open>terminate\<close>, \<^verbatim>\<open>reject\<close> or \<^verbatim>\<open>timeout\<close>.  In particular an event whose id does not match
  leaves the outbound state unchanged.
\<close>

theorem webhook_outbound_transitions:
  "webhooks_conform (run initial_state ins) ws"
  by (rule webhooks_conform_inv [OF run_outbound_inv [OF outbound_inv_initial]])

theorem webhook_outbound_transitions_witness:
  "matches_outgoing (run initial_state (butlast outbound_terminated)) (get_field connect_X ''id'') \<and>
   \<not> matches_outgoing (run initial_state (butlast outbound_terminated)) (get_field connect_A ''id'') \<and>
   status (outgoingCallState (run initial_state (butlast outbound_terminated))) = ''ringing'' \<and>
   webhooks_conform (run initial_state (butlast outbound_terminated))
     [(connect_A, JUndefined, ok_env), (connect_X, JUndefined, ok_env),
      (terminate_B, JUndefined, ok_env), (terminate_X, JUndefined, ok_env)] \<and>
   status (outgoingCallState (fst (webhook_post connect_X JUndefined ok_env
      (fst (webhook_post connect_A JUndefined ok_env
         (run initial_state (butlast outbound_terminated))))))) = ''connected''"
  using webhook_outbound_transitions [of "butlast outbound_terminated"
      "[(connect_A, JUndefined, ok_env), (connect_X, JUndefined, ok_env),
        (terminate_B, JUndefined, ok_env), (terminate_X, JUndefined, ok_env)]"]
  by (simp add: webhook_outbound ringing_X_outgoing matches_outgoing_def well_formed_event_def
        connect_X_def connect_A_def js_or_def)

section \<open>What a reset covers\<close>

lemma session_fields_kept_upd [simp]:
  "session_fields_kept (s\<lparr>currentCallId := c\<rparr>) s' = session_fields_kept s s'"
  by (simp add: session_fields_kept_def)

lemma webhook_call_end_kept:
  assumes "well_formed_event call"
    and "get_field call ''event'' = JStr ''terminate'' \<or>
         get_field call ''event'' = JStr ''reject'' \<or>
         get_field call ''event'' = JStr ''timeout''"
  shows "session_fields_kept s (fst (webhook_post call contact env s))"
  using assms
    webhook_terminate_frame(4) [of "s\<lparr>currentCallId := get_field call ''id''\<rparr>" call]
    webhook_reject_frame(4) [of "s\<lparr>currentCallId := get_field call ''id''\<rparr>" call]
    webhook_timeout_frame(4) [of "s\<lparr>currentCallId := get_field call ''id''\<rparr>" call]
  by (auto simp: webhook_post_def Let_def fst_with_status well_formed_event_def)

lemma webhook_call_end_outbound:
  assumes "well_formed_event call"
    and "get_field call ''event'' = JStr ''terminate'' \<or>
         get_field call ''event'' = JStr ''reject'' \<or>
         get_field call ''event'' = JStr ''timeout''"
  shows "if matches_outgoing s (get_field call ''id'')
         then outbound_reset (fst (webhook_post call contact env s))
         else outbound_unchanged s (fst (webhook_post call contact env s))"
  using assms
  by (auto simp: outbound_reset_def outbound_unchanged_def webhook_outbound)

lemma browser_call_end:
  "session_fields_kept s (fst (reject_call cid h s))"
  "outbound_unchanged s (fst (reject_call cid h s))"
  "currentCallId (fst (reject_call cid h s)) = currentCallId s"
  "session_fields_kept s (fst (terminate_call cid h s))"
  "outbound_unchanged s (fst (terminate_call cid h s))"
  "currentCallId (fst (terminate_call cid h s)) = currentCallId s"
  by (simp_all add: reject_call_def terminate_call_def reject_result terminate_result
        post_call_def session_fields_kept_def outbound_unchanged_def)

lemma reject_outbound_end:
  "session_fields_kept s (fst (reject_outbound_call h s))"
  "currentCallId (fst (reject_outbound_call h s)) = currentCallId s"
  "if to_string_throws (callId (outgoingCallState s))
   then outbound_unchanged s (fst (reject_outbound_call h s))
   else outbound_reset (fst (reject_outbound_call h s))"
  using to_string_throws_truthy [of "callId (outgoingCallState s)"]
  by (simp_all add: reject_outbound_call_def reject_result Let_def post_call_def
        outbound_reset_def outbound_unchanged_def session_fields_kept_def
        resetOutgoingCallState_def)

lemma terminate_outbound_end:
  "session_fields_kept s (fst (terminate_outbound_call h s))"
  "currentCallId (fst (terminate_outbound_call h s)) = currentCallId s"
  "if to_string_throws (callId (outgoingCallState s))
   then outbound_unchanged s (fst (terminate_outbound_call h s))
   else outbound_reset (fst (terminate_outbound_call h s))"
  using to_string_throws_truthy [of "callId (outgoingCallState s)"]
  by (simp_all add: terminate_outbound_call_def terminate_result Let_def post_call_def
        outbound_reset_def outbound_unchanged_def session_fields_kept_def
        resetOutgoingCallState_def)

lemma waiting_for_sdp_eq:
  "run initial_state (take 1 outbound_terminated) =
     initial_state\<lparr>isOutgoingCall := True,
       outgoingCallState := \<lparr>phoneNumber = JStr ''15551234567'',
         callerName = JStr ''Outgoing Call'', callId = JNull, status = ''waiting-for-sdp''\<rparr>,
       emitted := emitted (run initial_state (take 1 outbound_terminated))\<rparr>"
  by (simp add: run_def outbound_terminated_def handler_defs example_defs Let_def)

text \<open>
  C5 (as amended).  When a call ends, is rejected or times out (a well-formed
  \<^verbatim>\<open>terminate\<close>, \<^verbatim>\<open>reject\<close> or \<^verbatim>\<open>timeout\<close> webhook event for any call id, inbound or outbound, or
  one of the browser's \<^verbatim>\<open>reject-call\<close>, \<^verbatim>\<open>terminate-call\<close>, \<^verbatim>\<open>reject-outbound-call\<close>,
  \<^verbatim>\<open>terminate-outbound-call\<close>), the only session fields that are ever reset are
  \<^verbatim>\<open>isOutgoingCall\<close> and \<^verbatim>\<open>outgoingCallState\<close>, and these are reset as a whole, never in part:
  together in that one step when the webhook event's id matches the outgoing call, or when
  the browser's \<^verbatim>\<open>reject-outbound-call\<close> / \<^verbatim>\<open>terminate-outbound-call\<close> handler gets past its
  provider call (from any state, \<^verbatim>\<open>waiting-for-sdp\<close> included; it stops before the reset only
  when the stored call id cannot be converted to a string); otherwise they are left exactly
  as they were.  Both offers, both peers, both streams and the signaling handle are never
  reset by these events and keep their values; \<^verbatim>\<open>currentCallId\<close> becomes the event's id on a
  webhook event and is kept by the browser's handlers.
\<close>

theorem outbound_reset_scope:
  "(well_formed_event call \<and>
    (get_field call ''event'' = JStr ''terminate'' \<or>
     get_field call ''event'' = JStr ''reject'' \<or>
     get_field call ''event'' = JStr ''timeout'') \<longrightarrow>
      session_fields_kept s (fst (webhook_post call contact env s)) \<and>
      currentCallId (fst (webhook_post call contact env s)) = get_field call ''id'' \<and>
      (if matches_outgoing s (get_field call ''id'')
       then outbound_reset (fst (webhook_post call contact env s))
       else outbound_unchanged s (fst (webhook_post call contact env s)))) \<and>
   session_fields_kept s (fst (reject_call cid h s)) \<and>
   outbound_unchanged s (fst (reject_call cid h s)) \<and>
   currentCallId (fst (reject_call cid h s)) = currentCallId s \<and>
   session_fields_kept s (fst (terminate_call cid h s)) \<and>
   outbound_unchanged s (fst (terminate_call cid h s)) \<and>
   currentCallId (fst (terminate_call cid h s)) = currentCallId s \<and>
   session_fields_kept s (fst (reject_outbound_call h s)) \<and>
   currentCallId (fst (reject_outbound_call h s)) = currentCallId s \<and>
   (if to_string_throws (callId (outgoingCallState s))
    then outbound_unchanged s (fst (reject_outbound_call h s))
    else outbound_reset (fst (reject_outbound_call h s))) \<and>
   session_fields_kept s (fst (terminate_outbound_call h s)) \<and>
   currentCallId (fst (terminate_outbound_call h s)) = currentCallId s \<and>
   (if to_string_throws (callId (outgoingCallState s))
    then outbound_unchanged s (fst (terminate_outbound_call h s))
    else outbound_reset (fst (terminate_outbound_call h s)))"
  using webhook_call_end_kept [of call s contact env]
    webhook_call_end_outbound [of call s contact env]
    webhook_current_call_id [of call contact env s]
    browser_call_end [where s = s and cid = cid and h = h]
    reject_outbound_end [where s = s and h = h]
    terminate_outbound_end [where s = s and h = h]
  by simp

theorem outbound_reset_scope_witness:
  "well_formed_event terminate_X \<and>
   get_field terminate_X ''event'' = JStr ''terminate'' \<and>
   matches_outgoing (run initial_state (butlast outbound_terminated)) (get_field terminate_X ''id'') \<and>
   outbound_reset (fst (webhook_post terminate_X JUndefined ok_env
                          (run initial_state (butlast outbound_terminated)))) \<and>
   browserOfferSdp (fst (webhook_post terminate_X JUndefined ok_env
                          (run initial_state (butlast outbound_terminated)))) = JStr ''b-offer'' \<and>
   status (outgoingCallState (run initial_state (take 1 outbound_terminated))) =
     ''waiting-for-sdp'' \<and>
   callId (outgoingCallState (run initial_state (take 1 outbound_terminated))) = JNull \<and>
   isOutgoingCall (run initial_state (take 1 outbound_terminated)) \<and>
   outbound_reset (fst (reject_outbound_call ok_response
                          (run initial_state (take 1 outbound_terminated))))"
proof -
  let ?r = "run initial_state (butlast outbound_terminated)"
  let ?w = "run initial_state (take 1 outbound_terminated)"
  have a: "well_formed_event terminate_X"
    by (simp add: well_formed_event_def terminate_X_def)
  have b: "get_field terminate_X ''event'' = JStr ''terminate''"
    by (simp add: terminate_X_def)
  have c: "matches_outgoing ?r (get_field terminate_X ''id'')"
    by (subst ringing_X_eq) (simp add: matches_outgoing_def terminate_X_def)
  have d: "browserOfferSdp ?r = JStr ''b-offer''"
    by (subst ringing_X_eq) simp
  have e: "status (outgoingCallState ?w) = ''waiting-for-sdp''"
    "callId (outgoingCallState ?w) = JNull" "isOutgoingCall ?w"
    by (subst waiting_for_sdp_eq, simp)+
  from outbound_reset_scope [of terminate_X ?r JUndefined ok_env "JStr ''X''" ok_response]
    outbound_reset_scope [of terminate_X ?w JUndefined ok_env "JStr ''X''" ok_response]
    a b c d e
  show ?thesis by (simp add: session_fields_kept_def)
qed

text \<open>
  C5 as stated fails: after an outbound call was placed, confirmed and then terminated by
  the provider, the outgoing call record is back to its initial value while the browser
  offer, the signaling handle and \<^verbatim>\<open>currentCallId\<close> still hold the call's values.
\<close>

theorem partial_reset_counterexample:
  "outgoingCallState (run initial_state outbound_terminated) = idle_call_state \<and>
   isOutgoingCall (run initial_state outbound_terminated) = False \<and>
   browserOfferSdp (run initial_state outbound_terminated) = JStr ''b-offer'' \<and>
   browserSocket (run initial_state outbound_terminated) = Some 1 \<and>
   currentCallId (run initial_state outbound_terminated) = JStr ''X''"
  by (simp add: run_def outbound_terminated_def handler_defs example_defs Let_def)

section \<open>The call id of pre-accept and accept\<close>

text \<open>
  C10 (as amended).  Every well-formed webhook event, of any type and whether or not its id
  matches the outgoing call, sets \<^verbatim>\<open>currentCallId\<close> to its id (a malformed one leaves it).
  Every \<^verbatim>\<open>pre_accept\<close> or \<^verbatim>\<open>accept\<close> request posted by a step carries the value
  \<^verbatim>\<open>currentCallId\<close> holds at that step.  Besides a well-formed webhook event, only a browser
  offer that successfully initiates an outbound call changes \<^verbatim>\<open>currentCallId\<close>; so an answer
  carries the id of the latest well-formed webhook event unless such an initiation came
  after it.
\<close>

theorem answers_carry_current_call_id:
  "(if well_formed_event call
    then currentCallId (fst (webhook_post call contact env s)) = get_field call ''id''
    else currentCallId (fst (webhook_post call contact env s)) = currentCallId s) \<and>
   list_all (\<lambda>c. \<not> is_answer c \<or> req_call_id c = currentCallId (step s i))
     (new_calls s (step s i)) \<and>
   (currentCallId (step s i) = currentCallId s \<or>
    (\<exists>call contact env. i = WebhookPost call contact env \<and> well_formed_event call \<and>
       currentCallId (step s i) = get_field call ''id'') \<or>
    (\<exists>sock sdp h now env. i = BrowserOffer sock sdp h now env \<and> isOutgoingCall s \<and>
       status (outgoingCallState s) = ''waiting-for-sdp'' \<and> http_success h))"
  using step_answers [of s i] step_current_call_id [of s i]
  by (simp add: webhook_current_call_id)

theorem answers_carry_current_call_id_witness:
  "well_formed_event terminate_B \<and>
   currentCallId (run initial_state (take 2 webhook_during_delay)) = JStr ''A'' \<and>
   currentCallId (fst (webhook_post terminate_B JUndefined ok_env
        (run initial_state (take 2 webhook_during_delay)))) = JStr ''B'' \<and>
   list_all (\<lambda>c. is_answer c \<and> req_call_id c = JStr ''B'')
     (new_calls (fst (webhook_post terminate_B JUndefined ok_env
                   (run initial_state (take 2 webhook_during_delay))))
        (step (fst (webhook_post terminate_B JUndefined ok_env
                   (run initial_state (take 2 webhook_during_delay))))
           (AcceptTimer ok_response))) \<and>
   new_calls (fst (webhook_post terminate_B JUndefined ok_env
                   (run initial_state (take 2 webhook_during_delay))))
        (step (fst (webhook_post terminate_B JUndefined ok_env
                   (run initial_state (take 2 webhook_during_delay))))
           (AcceptTimer ok_response)) \<noteq> []"
proof -
  let ?s = "run initial_state (take 2 webhook_during_delay)"
  let ?s' = "fst (webhook_post terminate_B JUndefined ok_env ?s)"
  have w: "well_formed_event terminate_B"
    by (simp add: well_formed_event_def terminate_B_def)
  have a: "currentCallId ?s = JStr ''A''"
    by (subst pre_accepted_A_eq) simp
  have b: "currentCallId ?s' = JStr ''B''"
    using answers_carry_current_call_id [of terminate_B JUndefined ok_env ?s "AcceptTimer ok_response"] w
    by (simp add: terminate_B_def)
  have t: "timers ?s' = [\<lparr>delay_ms = 1000, timer_sdp = ''v=0 a=setup:active x''\<rparr>]"
    by (subst pre_accepted_A_eq)
       (simp add: webhook_post_def webhook_terminate_def terminate_B_def Let_def
          matches_outgoing_def resetOutgoingCallState_def)
  have n: "new_calls ?s' (step ?s' (AcceptTimer ok_response)) =
        [\<lparr>req_action = Accept, req_to = JUndefined, req_call_id = currentCallId ?s',
          req_sdp = JStr ''v=0 a=setup:active x'', req_outcome = ok_response\<rparr>]"
    by (simp add: accept_timer_fires_def t answer_result post_call_def new_calls_def)
  show ?thesis
    using w a b n by (simp add: is_answer_def)
qed

text \<open>
  C10 as stated fails in its last part: after an inbound \<^verbatim>\<open>connect\<close> for call \<^verbatim>\<open>A\<close>, an
  outbound call is initiated and confirmed with id \<^verbatim>\<open>X\<close> (line 168 stores it in
  \<^verbatim>\<open>currentCallId\<close>); the bridge started by the next browser offer sends its \<^verbatim>\<open>pre_accept\<close>
  for \<^verbatim>\<open>X\<close>, not for the id of the latest webhook event.
\<close>

theorem answer_not_last_webhook_id_counterexample:
  "map req_action (provider_log (run initial_state offer_after_outbound)) = [Connect, PreAccept] \<and>
   map req_call_id (provider_log (run initial_state offer_after_outbound)) = [JUndefined, JStr ''X''] \<and>
   \<not> answers_use_webhook_id initial_state JNull offer_after_outbound"
  by (simp add: run_def offer_after_outbound_def handler_defs example_defs Let_def
        finalWaSdp_def js_replace_def new_calls_def well_formed_event_def is_answer_def)

end
